theory Spec2Isabelle
  imports Main "HOL-Library.Char_ord" "HOL-Library.List_Lexorder"
begin

section \<open>Python string and path primitives used by reinstall.py\<close>

text \<open>
  Strings are \<open>char list\<close>. \<open>startswith\<close> is \<open>str.startswith\<close>, \<open>str_replace\<close> is
  \<open>str.replace(old, new)\<close> (every non-overlapping occurrence, scanning from the left; an
  empty \<open>old\<close> matches before every character and at the end), \<open>split_chr\<close> is
  \<open>str.split(sep)\<close> for a one-character separator (it never returns the empty list), and
  \<open>py_join\<close> is \<open>os.path.join\<close> of posixpath with two arguments.
\<close>

definition startswith :: "string \<Rightarrow> string \<Rightarrow> bool" where
  "startswith s p = (take (length p) s = p)"

fun replace_from :: "string \<Rightarrow> string \<Rightarrow> string \<Rightarrow> string" where
  "replace_from old new [] = []"
| "replace_from old new (c # cs) =
     (if old \<noteq> [] \<and> startswith (c # cs) old
      then new @ replace_from old new (drop (length old) (c # cs))
      else c # replace_from old new cs)"

definition str_replace :: "string \<Rightarrow> string \<Rightarrow> string \<Rightarrow> string" where
  "str_replace s old new =
     (if old = [] then new @ concat (map (\<lambda>c. c # new) s) else replace_from old new s)"

fun split_chr :: "char \<Rightarrow> string \<Rightarrow> string list" where
  "split_chr sep [] = [[]]"
| "split_chr sep (c # cs) =
     (if c = sep then [] # split_chr sep cs
      else (case split_chr sep cs of [] \<Rightarrow> [[c]] | w # ws \<Rightarrow> (c # w) # ws))"

definition py_join :: "string \<Rightarrow> string \<Rightarrow> string" where
  "py_join a b =
     (if startswith b ''/'' then b
      else if a = [] \<or> last a = CHR ''/'' then a @ b
      else a @ ''/'' @ b)"

text \<open>
  \<open>pathlib.Path\<close> on POSIX: a path object is its root (\<open>''''\<close>, \<open>''/''\<close> or \<open>''//''\<close>) and its
  parts. The constructor drops empty and \<open>.\<close> components, so repeated and trailing
  separators vanish; exactly two leading separators are kept, three or more are one.
  \<open>str_path\<close> is \<open>str(p)\<close> (also what \<open>os.fspath\<close> hands to \<open>os.path.isfile\<close> and
  \<open>shutil.copy\<close>), \<open>parent\<close> is \<open>p.parent\<close>.
\<close>

datatype ppath = PPath (root: string) (parts: "string list")

definition splitroot :: "string \<Rightarrow> string \<times> string" where
  "splitroot p =
     (if take 1 p \<noteq> ''/'' then ('''', p)
      else if take 1 (drop 1 p) \<noteq> ''/'' then (''/'', drop 1 p)
      else if take 1 (drop 2 p) = ''/'' then (''/'', drop 1 p)
      else (take 2 p, drop 2 p))"

definition Path :: "string \<Rightarrow> ppath" where
  "Path s = (case splitroot s of (r, rel) \<Rightarrow>
     PPath r (filter (\<lambda>x. x \<noteq> [] \<and> x \<noteq> ''.'') (split_chr CHR ''/'' rel)))"

fun sep_join :: "string list \<Rightarrow> string" where
  "sep_join [] = []"
| "sep_join [x] = x"
| "sep_join (x # y # ys) = x @ ''/'' @ sep_join (y # ys)"

definition str_path :: "ppath \<Rightarrow> string" where
  "str_path p = (if root p = [] \<and> parts p = [] then ''.'' else root p @ sep_join (parts p))"

definition parent :: "ppath \<Rightarrow> ppath" where
  "parent p = (if parts p = [] then p else PPath (root p) (butlast (parts p)))"

section \<open>Path resolution of \<open>reinstall_dots_sb\<close>\<close>

text \<open>
  Lines 46-49: an identifier that starts with the separator gets the separator replaced
  by \<open>:\<close>, then is joined to \<open>dots_path\<close>.
\<close>

definition encode_identifier :: "string \<Rightarrow> string" where
  "encode_identifier dotfile_path_from_config =
     (if startswith dotfile_path_from_config ''/''
      then '':'' @ drop 1 dotfile_path_from_config
      else dotfile_path_from_config)"

definition real_path_dotfile :: "string \<Rightarrow> string \<Rightarrow> string" where
  "real_path_dotfile dots_path dotfile_path_from_config =
     py_join dots_path (encode_identifier dotfile_path_from_config)"

text \<open>
  Lines 63-68: the destination string of a source path. Line 69 then wraps source and
  destination into \<open>Path\<close> objects.
\<close>

definition dest_of :: "string \<Rightarrow> string \<Rightarrow> string \<Rightarrow> string" where
  "dest_of dots_path home_path source =
     (let abs_path_start = py_join dots_path '':'' in
      if startswith source abs_path_start
      then ''/'' @ drop (length abs_path_start) source
      else str_replace source dots_path (home_path @ ''/''))"

definition resolve_pair :: "string \<Rightarrow> string \<Rightarrow> string \<Rightarrow> ppath \<times> ppath" where
  "resolve_pair dots_path home_path source =
     (Path source, Path (dest_of dots_path home_path source))"

section \<open>The world outside the module\<close>

text \<open>
  Exceptions of the run. \<open>PermissionError\<close> carries \<open>err.filename\<close>, \<open>FileNotFoundError\<close>
  carries \<open>str(err)\<close>; \<open>OtherError\<close> stands for every exception class that neither
  \<open>except\<close> clause of the copy loop matches; \<open>SystemExit\<close> is the exit of
  \<open>exit_if_dir_is_empty\<close>.
\<close>

datatype py_exn =
    PermissionError string
  | FileNotFoundError string
  | OtherError string
  | SystemExit

text \<open>
  What the module prints, one constructor per printing helper of \<open>printing.py\<close>.
  \<open>Parent_is_file parent dest\<close> is the red f-string of line 84, which interpolates
  \<open>parent_dir\<close> and \<open>dot_dest\<close>; \<open>Permission_errors_detected n\<close> is the red message of
  line 105, which starts with the number \<open>n\<close>.
\<close>

datatype message =
    Section_header string
  | Dry_run_copy_info string string
  | Parent_is_file string string
  | Red_bold string
  | Permission_errors_detected nat
  | List_pretty "string list"
  | Blue_bold string
  | Yellow string
  | Yellow_bold string
  | Blank_line
  | Pkg_mgr_reinstall string

text \<open>
  The trace of a run: every print, and every call that can change the file system or
  start a process, with what the call answered (\<open>None\<close>: it returned normally).
\<close>

datatype event =
    Print message
  | Safe_mkdir string "py_exn option"
  | Copy string string "py_exn option"
  | Copyfile string string "py_exn option"
  | Copytree string string "py_exn option"
  | Run_cmd string int

record config =
  dotfiles :: "(string \<times> (string \<rightharpoonup> string)) list"
  config_mapping :: "(string \<times> string) list"

text \<open>
  The helpers imported from \<open>utils\<close>, \<open>config\<close>, \<open>compatibility\<close>, \<open>os\<close> and \<open>shutil\<close>
  are parameters: functions of a world \<open>'w\<close> (file system, processes, configuration
  file), returning the new world where they can change it; what a helper prints or
  runs by itself belongs to the world. \<open>exit_if_dir_is_empty\<close> answers whether it exits.
  \<open>evaluate_condition\<close> takes the condition, \<open>backup_or_reinstall\<close> and the identifier, in
  this order. \<open>read_lines\<close> is \<open>open(path, "r")\<close> followed by the iteration over the
  lines. \<open>set_iteration\<close> is the order in which Python iterates over a set of strings,
  which the language does not fix.
\<close>

record 'w env =
  exit_if_dir_is_empty :: "'w \<Rightarrow> string \<Rightarrow> string \<Rightarrow> bool"
  get_config :: "'w \<Rightarrow> config"
  evaluate_condition :: "'w \<Rightarrow> string \<Rightarrow> string \<Rightarrow> string \<Rightarrow> bool \<times> 'w"
  isfile :: "'w \<Rightarrow> string \<Rightarrow> bool"
  isdir :: "'w \<Rightarrow> string \<Rightarrow> bool"
  get_abs_path_subfiles :: "'w \<Rightarrow> string \<Rightarrow> string list"
  safe_mkdir :: "'w \<Rightarrow> string \<Rightarrow> py_exn option \<times> 'w"
  copy :: "'w \<Rightarrow> string \<Rightarrow> string \<Rightarrow> py_exn option \<times> 'w"
  copyfile :: "'w \<Rightarrow> string \<Rightarrow> string \<Rightarrow> py_exn option \<times> 'w"
  copytree :: "'w \<Rightarrow> string \<Rightarrow> string \<Rightarrow> py_exn option \<times> 'w"
  find_path_for_permission_error_reporting :: "string \<Rightarrow> string"
  get_fonts_dir :: "'w \<Rightarrow> string"
  listdir :: "'w \<Rightarrow> string \<Rightarrow> string list"
  run_cmd :: "'w \<Rightarrow> string \<Rightarrow> int \<times> 'w"
  read_lines :: "'w \<Rightarrow> string \<Rightarrow> py_exn + string list"
  set_iteration :: "string set \<Rightarrow> string list"

record 'w io =
  world :: 'w
  trace :: "event list"

record 'w dots_state = "'w io" +
  reinstallation_error_count :: nat
  files_with_permission_errors :: "string set"

definition emit :: "event \<Rightarrow> ('w, 'z) io_scheme \<Rightarrow> ('w, 'z) io_scheme" where
  "emit ev st = st\<lparr>trace := trace st @ [ev]\<rparr>"

definition io_of :: "('w, 'z) io_scheme \<Rightarrow> 'w io" where
  "io_of st = \<lparr>world = world st, trace = trace st\<rparr>"

section \<open>\<open>reinstall_dots_sb\<close>\<close>

text \<open>
  Lines 35-54, one rule of the configuration after the other. The condition is
  evaluated on the identifier as configured; a rule whose condition fails is left by
  \<open>continue\<close> before the identifier is encoded.
\<close>

fun collect_dotfiles ::
  "'w env \<Rightarrow> string \<Rightarrow> (string \<times> (string \<rightharpoonup> string)) list \<Rightarrow> string list \<times> 'w
     \<Rightarrow> string list \<times> 'w" where
  "collect_dotfiles E dots_path [] acc = acc"
| "collect_dotfiles E dots_path ((dotfile_path_from_config, options) # rest)
       (dotfiles_to_reinstall, w) =
     (case evaluate_condition E w
             (case options ''reinstall_condition'' of None \<Rightarrow> [] | Some c \<Rightarrow> c)
             ''reinstall'' dotfile_path_from_config of
        (condition_success, w') \<Rightarrow>
          if \<not> condition_success
          then collect_dotfiles E dots_path rest (dotfiles_to_reinstall, w')
          else if isfile E w' (real_path_dotfile dots_path dotfile_path_from_config)
          then collect_dotfiles E dots_path rest
                 (dotfiles_to_reinstall @ [real_path_dotfile dots_path dotfile_path_from_config], w')
          else collect_dotfiles E dots_path rest
                 (dotfiles_to_reinstall
                    @ get_abs_path_subfiles E w'
                        (real_path_dotfile dots_path dotfile_path_from_config), w'))"

text \<open>Lines 73-97, the body of the copy loop for one pair.\<close>

definition copy_dotfile ::
  "'w env \<Rightarrow> bool \<Rightarrow> ppath \<times> ppath \<Rightarrow> 'w dots_state \<Rightarrow> (py_exn \<times> 'w io) + 'w dots_state" where
  "copy_dotfile E dry_run pr st =
     (case pr of (dot_source, dot_dest) \<Rightarrow>
        if dry_run
        then Inr (emit (Print (Dry_run_copy_info (str_path dot_source) (str_path dot_dest))) st)
        else
          let parent_dir = parent dot_dest in
          if isfile E (world st) (str_path parent_dir)
          then Inr ((emit (Print (Parent_is_file (str_path parent_dir) (str_path dot_dest))) st)
                      \<lparr>reinstallation_error_count := reinstallation_error_count st + 1\<rparr>)
          else
            (case safe_mkdir E (world st) (str_path (parent dot_dest)) of
               (Some e, w1) \<Rightarrow>
                 Inl (e, io_of (emit (Safe_mkdir (str_path (parent dot_dest)) (Some e))
                                  (st\<lparr>world := w1\<rparr>)))
             | (None, w1) \<Rightarrow>
                 (case copy E w1 (str_path dot_source) (str_path dot_dest) of
                    (r, w2) \<Rightarrow>
                      let st2 = emit (Copy (str_path dot_source) (str_path dot_dest) r)
                                  (emit (Safe_mkdir (str_path (parent dot_dest)) None)
                                     (st\<lparr>world := w2\<rparr>)) in
                      (case r of
                         None \<Rightarrow> Inr st2
                       | Some (PermissionError filename) \<Rightarrow>
                           Inr (st2\<lparr>files_with_permission_errors :=
                                  insert (find_path_for_permission_error_reporting E filename)
                                    (files_with_permission_errors st2)\<rparr>)
                       | Some (FileNotFoundError err) \<Rightarrow>
                           Inr (emit (Print (Red_bold (''ERROR: '' @ err))) st2)
                       | Some e \<Rightarrow> Inl (e, io_of st2)))))"

fun copy_dotfiles ::
  "'w env \<Rightarrow> bool \<Rightarrow> (ppath \<times> ppath) list \<Rightarrow> 'w dots_state
     \<Rightarrow> (py_exn \<times> 'w io) + 'w dots_state" where
  "copy_dotfiles E dry_run [] st = Inr st"
| "copy_dotfiles E dry_run (pr # prs) st =
     (case copy_dotfile E dry_run pr st of
        Inl a \<Rightarrow> Inl a
      | Inr st' \<Rightarrow> copy_dotfiles E dry_run prs st')"

text \<open>Lines 99-109, the report at the end of the batch.\<close>

definition end_of_batch :: "'w dots_state \<Rightarrow> event list" where
  "end_of_batch st =
     (if reinstallation_error_count st \<noteq> 0
      then [Print (Red_bold (CHR 0x0A # ''Some errors which require manual resolution detected.''))]
      else [])
     @ (let num_permission_errors = card (files_with_permission_errors st) in
        if num_permission_errors \<noteq> 0
        then [Print (Permission_errors_detected num_permission_errors),
              Print (List_pretty (sorted_list_of_set (files_with_permission_errors st)))]
        else [])
     @ [Print (Section_header ''DOTFILE REINSTALLATION COMPLETED'')]"

definition reinstall_dots_sb ::
  "'w env \<Rightarrow> string \<Rightarrow> string \<Rightarrow> bool \<Rightarrow> 'w \<Rightarrow> (py_exn \<times> 'w io) + 'w io" where
  "reinstall_dots_sb E dots_path home_path dry_run w =
     (if exit_if_dir_is_empty E w dots_path ''dotfile''
      then Inl (SystemExit, \<lparr>world = w, trace = []\<rparr>)
      else
        (case collect_dotfiles E dots_path (dotfiles (get_config E w)) ([], w) of
           (dotfiles_to_reinstall, w1) \<Rightarrow>
             (case copy_dotfiles E dry_run
                     (map (resolve_pair dots_path home_path) dotfiles_to_reinstall)
                     \<lparr>world = w1,
                      trace = [Print (Section_header ''REINSTALLING DOTFILES'')],
                      reinstallation_error_count = 0,
                      files_with_permission_errors = {}\<rparr> of
                Inl a \<Rightarrow> Inl a
              | Inr st \<Rightarrow> Inr \<lparr>world = world st, trace = trace st @ end_of_batch st\<rparr>)))"

section \<open>\<open>shlex.quote\<close>, fonts and configs\<close>

text \<open>
  \<open>shlex.quote\<close>: the empty string becomes two quote characters; a string of safe
  characters only (ASCII letters, digits and \<open>_@%+=:,./-\<close>) is returned as it is; any other
  string is wrapped in single quotes (\<open>CHR 0x27\<close>), each single quote inside it replaced by
  the five characters quote, double quote, quote, double quote, quote.
\<close>

definition safe_char :: "char \<Rightarrow> bool" where
  "safe_char c =
     (c \<in> set ''abcdefghijklmnopqrstuvwxyzABCDEFGHIJKLMNOPQRSTUVWXYZ0123456789_@%+=:,./-'')"

definition quote :: "string \<Rightarrow> string" where
  "quote s =
     (if s = [] then [CHR 0x27, CHR 0x27]
      else if list_all safe_char s then s
      else CHR 0x27
             # str_replace s [CHR 0x27] [CHR 0x27, CHR 0x22, CHR 0x27, CHR 0x22, CHR 0x27]
             @ [CHR 0x27])"

text \<open>Lines 118-124, the body of the font loop; \<open>font.split("/")[-1]\<close> is the last piece.\<close>

definition reinstall_font ::
  "'w env \<Rightarrow> bool \<Rightarrow> string \<Rightarrow> 'w io \<Rightarrow> (py_exn \<times> 'w io) + 'w io" where
  "reinstall_font E dry_run font st =
     (let fonts_dir = get_fonts_dir E (world st);
          dest_path = quote (py_join fonts_dir (last (split_chr CHR ''/'' font)))
      in if dry_run then Inr (emit (Print (Dry_run_copy_info font dest_path)) st)
         else
           (case copyfile E (world st) (quote font) (quote dest_path) of
              (r, w1) \<Rightarrow>
                let st1 = emit (Copyfile (quote font) (quote dest_path) r) (st\<lparr>world := w1\<rparr>) in
                (case r of None \<Rightarrow> Inr st1 | Some e \<Rightarrow> Inl (e, st1))))"

fun reinstall_fonts ::
  "'w env \<Rightarrow> bool \<Rightarrow> string list \<Rightarrow> 'w io \<Rightarrow> (py_exn \<times> 'w io) + 'w io" where
  "reinstall_fonts E dry_run [] st = Inr st"
| "reinstall_fonts E dry_run (font # fonts) st =
     (case reinstall_font E dry_run font st of
        Inl a \<Rightarrow> Inl a
      | Inr st' \<Rightarrow> reinstall_fonts E dry_run fonts st')"

definition reinstall_fonts_sb ::
  "'w env \<Rightarrow> string \<Rightarrow> bool \<Rightarrow> 'w \<Rightarrow> (py_exn \<times> 'w io) + 'w io" where
  "reinstall_fonts_sb E fonts_path dry_run w =
     (if exit_if_dir_is_empty E w fonts_path ''font''
      then Inl (SystemExit, \<lparr>world = w, trace = []\<rparr>)
      else
        (case reinstall_fonts E dry_run (get_abs_path_subfiles E w fonts_path)
                \<lparr>world = w, trace = [Print (Section_header ''REINSTALLING FONTS'')]\<rparr> of
           Inl a \<Rightarrow> Inl a
         | Inr st \<Rightarrow> Inr (emit (Print (Section_header ''FONT REINSTALLATION COMPLETED'')) st)))"

text \<open>Lines 134-145, the body of the config loop for one entry of \<open>config_mapping\<close>.\<close>

definition reinstall_config ::
  "'w env \<Rightarrow> string \<Rightarrow> bool \<Rightarrow> string \<times> string \<Rightarrow> 'w io \<Rightarrow> (py_exn \<times> 'w io) + 'w io" where
  "reinstall_config E configs_path dry_run entry st =
     (case entry of (dest_path0, backup_loc) \<Rightarrow>
        let dest_path = quote dest_path0;
            source_path = quote (py_join configs_path backup_loc)
        in if dry_run then Inr (emit (Print (Dry_run_copy_info source_path dest_path)) st)
           else if isdir E (world st) source_path
           then
             (case copytree E (world st) source_path dest_path of
                (r, w1) \<Rightarrow>
                  let st1 = emit (Copytree source_path dest_path r) (st\<lparr>world := w1\<rparr>) in
                  (case r of None \<Rightarrow> Inr st1 | Some e \<Rightarrow> Inl (e, st1)))
           else if isfile E (world st) source_path
           then
             (case copyfile E (world st) source_path dest_path of
                (r, w1) \<Rightarrow>
                  let st1 = emit (Copyfile source_path dest_path r) (st\<lparr>world := w1\<rparr>) in
                  (case r of None \<Rightarrow> Inr st1 | Some e \<Rightarrow> Inl (e, st1)))
           else Inr st)"

fun reinstall_configs ::
  "'w env \<Rightarrow> string \<Rightarrow> bool \<Rightarrow> (string \<times> string) list \<Rightarrow> 'w io
     \<Rightarrow> (py_exn \<times> 'w io) + 'w io" where
  "reinstall_configs E configs_path dry_run [] st = Inr st"
| "reinstall_configs E configs_path dry_run (entry # entries) st =
     (case reinstall_config E configs_path dry_run entry st of
        Inl a \<Rightarrow> Inl a
      | Inr st' \<Rightarrow> reinstall_configs E configs_path dry_run entries st')"

definition reinstall_configs_sb ::
  "'w env \<Rightarrow> string \<Rightarrow> bool \<Rightarrow> 'w \<Rightarrow> (py_exn \<times> 'w io) + 'w io" where
  "reinstall_configs_sb E configs_path dry_run w =
     (if exit_if_dir_is_empty E w configs_path ''config''
      then Inl (SystemExit, \<lparr>world = w, trace = []\<rparr>)
      else
        (case reinstall_configs E configs_path dry_run (config_mapping (get_config E w))
                \<lparr>world = w, trace = [Print (Section_header ''REINSTALLING CONFIG FILES'')]\<rparr> of
           Inl a \<Rightarrow> Inl a
         | Inr st \<Rightarrow> Inr (emit (Print (Section_header ''CONFIG REINSTALLATION COMPLETED'')) st)))"

section \<open>\<open>reinstall_packages_sb\<close>\<close>

text \<open>Lines 153-159: in a dry run the command is printed and 0 is returned.\<close>

definition run_cmd_if_no_dry_run :: "'w env \<Rightarrow> string \<Rightarrow> bool \<Rightarrow> 'w io \<Rightarrow> int \<times> 'w io" where
  "run_cmd_if_no_dry_run E command dry_run st =
     (if dry_run then (0, emit (Print (Yellow_bold (''$ '' @ command))) st)
      else
        (case run_cmd E (world st) command of
           (rc, w1) \<Rightarrow> (rc, emit (Run_cmd command rc) (st\<lparr>world := w1\<rparr>))))"

text \<open>
  Lines 165-178. \<open>split0 file\<close> is \<open>file.split("_")[0]\<close>; \<open>manager_of file\<close> is that piece
  with every \<open>-\<close> replaced by a space, the string tested against the list of managers.
  What is added to \<open>package_mgrs\<close> is \<open>split0 file\<close>.
\<close>

definition split0 :: "string \<Rightarrow> string" where
  "split0 file = (case split_chr CHR ''_'' file of [] \<Rightarrow> [] | w # ws \<Rightarrow> w)"

definition manager_of :: "string \<Rightarrow> string" where
  "manager_of file = str_replace (split0 file) ''-'' '' ''"

definition known_managers :: "string list" where
  "known_managers =
     [''gem'', ''cargo'', ''npm'', ''pip'', ''pip3'', ''brew'', ''vscode'', ''macports'']"

fun find_package_mgrs :: "string list \<Rightarrow> string set \<Rightarrow> string set" where
  "find_package_mgrs [] package_mgrs = package_mgrs"
| "find_package_mgrs (file # files) package_mgrs =
     (if manager_of file \<in> set known_managers
      then find_package_mgrs files (insert (split0 file) package_mgrs)
      else find_package_mgrs files package_mgrs)"

text \<open>Lines 187-219, the body of the second loop for one manager.\<close>

definition reinstall_package ::
  "'w env \<Rightarrow> string \<Rightarrow> bool \<Rightarrow> string \<Rightarrow> 'w io \<Rightarrow> (py_exn \<times> 'w io) + 'w io" where
  "reinstall_package E packages_path dry_run pm st =
     (if pm = ''brew'' then
        Inr (snd (run_cmd_if_no_dry_run E
          (''brew bundle install --no-lock --file '' @ packages_path @ ''/brew_list.txt'')
          dry_run (emit (Print (Pkg_mgr_reinstall pm)) st)))
      else if pm = ''npm'' then
        Inr (snd (run_cmd_if_no_dry_run E
          (''cat '' @ packages_path @ ''/npm_list.txt | xargs npm install -g'')
          dry_run (emit (Print (Pkg_mgr_reinstall pm)) st)))
      else if pm = ''pip'' then
        Inr (snd (run_cmd_if_no_dry_run E
          (''pip install -r '' @ packages_path @ ''/pip_list.txt'')
          dry_run (emit (Print (Pkg_mgr_reinstall pm)) st)))
      else if pm = ''pip3'' then
        Inr (snd (run_cmd_if_no_dry_run E
          (''pip3 install -r '' @ packages_path @ ''/pip3_list.txt'')
          dry_run (emit (Print (Pkg_mgr_reinstall pm)) st)))
      else if pm = ''vscode'' then
        (case read_lines E (world st) (packages_path @ ''/vscode_list.txt'') of
           Inl e \<Rightarrow> Inl (e, emit (Print (Pkg_mgr_reinstall pm)) st)
         | Inr lines \<Rightarrow>
             Inr (fold (\<lambda>package s.
                          snd (run_cmd_if_no_dry_run E
                                 (''code --install-extension '' @ package) dry_run s))
                    lines (emit (Print (Pkg_mgr_reinstall pm)) st)))
      else if pm = ''macports'' then
        Inr (emit (Print (Red_bold ''WARNING: Macports reinstallation is not supported.'')) st)
      else if pm = ''gem'' then
        Inr (snd (run_cmd_if_no_dry_run E
          (''cat '' @ packages_path @ ''/gem_list.txt | xargs -L 1 gem install'')
          dry_run (emit (Print (Pkg_mgr_reinstall pm)) st)))
      else if pm = ''cargo'' then
        Inr (snd (run_cmd_if_no_dry_run E
          (''cat '' @ packages_path @ ''/cargo_list.txt | xargs -L 1 cargo install'')
          dry_run (emit (Print (Pkg_mgr_reinstall pm)) st)))
      else Inr st)"

fun reinstall_packages ::
  "'w env \<Rightarrow> string \<Rightarrow> bool \<Rightarrow> string list \<Rightarrow> 'w io \<Rightarrow> (py_exn \<times> 'w io) + 'w io" where
  "reinstall_packages E packages_path dry_run [] st = Inr st"
| "reinstall_packages E packages_path dry_run (pm # pms) st =
     (case reinstall_package E packages_path dry_run pm st of
        Inl a \<Rightarrow> Inl a
      | Inr st' \<Rightarrow> reinstall_packages E packages_path dry_run pms st')"

definition reinstall_packages_sb ::
  "'w env \<Rightarrow> string \<Rightarrow> bool \<Rightarrow> 'w \<Rightarrow> (py_exn \<times> 'w io) + 'w io" where
  "reinstall_packages_sb E packages_path dry_run w =
     (if exit_if_dir_is_empty E w packages_path ''package''
      then Inl (SystemExit, \<lparr>world = w, trace = []\<rparr>)
      else
        let package_mgrs = find_package_mgrs (listdir E w packages_path) {};
            order = set_iteration E package_mgrs
        in
        (case reinstall_packages E packages_path dry_run order
                \<lparr>world = w,
                 trace = [Print (Section_header ''REINSTALLING PACKAGES''),
                          Print (Blue_bold ''Package Manager Backups Found:'')]
                         @ map (\<lambda>mgr. Print (Yellow (CHR 0x09 # mgr))) order
                         @ [Print Blank_line]\<rparr> of
           Inl a \<Rightarrow> Inl a
         | Inr st \<Rightarrow>
             Inr (emit (Print (Section_header ''PACKAGE REINSTALLATION COMPLETED'')) st)))"

text \<open>
  The identifier as the specification words it, for comparison with \<open>manager_of\<close>: the
  leading token of the file name before the first \<open>_\<close> or \<open>-\<close>.
\<close>

definition spec_leading_token :: "string \<Rightarrow> string" where
  "spec_leading_token file = takeWhile (\<lambda>c. c \<noteq> CHR ''_'' \<and> c \<noteq> CHR ''-'') file"

section \<open>Reading a trace\<close>

text \<open>
  \<open>permission_failures\<close> lists, in order, the file names of the \<open>PermissionError\<close>s that
  \<open>copy\<close> raised in a trace. \<open>propagated\<close> lists the exceptions of a trace that no
  \<open>except\<close> clause absorbs: any exception of \<open>safe_mkdir\<close>, which is called outside the
  \<open>try\<close>, and an exception of \<open>copy\<close> that is neither a \<open>PermissionError\<close> nor a
  \<open>FileNotFoundError\<close>. \<open>result_trace\<close> is the trace of a run, finished or aborted.
\<close>

fun permission_failures :: "event list \<Rightarrow> string list" where
  "permission_failures [] = []"
| "permission_failures (Copy s d (Some (PermissionError filename)) # evs) =
     filename # permission_failures evs"
| "permission_failures (ev # evs) = permission_failures evs"

fun propagated :: "event list \<Rightarrow> py_exn list" where
  "propagated [] = []"
| "propagated (Safe_mkdir p (Some e) # evs) = e # propagated evs"
| "propagated (Copy s d (Some (OtherError m)) # evs) = OtherError m # propagated evs"
| "propagated (Copy s d (Some SystemExit) # evs) = SystemExit # propagated evs"
| "propagated (ev # evs) = propagated evs"

definition result_trace :: "(py_exn \<times> 'w io) + ('w, 'z) io_scheme \<Rightarrow> event list" where
  "result_trace r = (case r of Inl (e, st) \<Rightarrow> trace st | Inr st \<Rightarrow> trace st)"

text \<open>
  \<open>result_world\<close> is the world a run ends in, and \<open>commands_run\<close> lists the commands that
  a trace handed to \<open>run_cmd\<close>.
\<close>

definition result_world :: "(py_exn \<times> 'w io) + ('w, 'z) io_scheme \<Rightarrow> 'w" where
  "result_world r = (case r of Inl (e, st) \<Rightarrow> world st | Inr st \<Rightarrow> world st)"

fun commands_run :: "event list \<Rightarrow> string list" where
  "commands_run [] = []"
| "commands_run (Run_cmd command rc # evs) = command # commands_run evs"
| "commands_run (ev # evs) = commands_run evs"

section \<open>A small concrete world\<close>

text \<open>
  A world for running the functions on concrete inputs. Its state is \<open>unit\<close>; the lists
  say which paths are regular files, which are directories, where \<open>copy\<close> is denied
  and where it fails for another reason. A source that is not a regular file is not
  found. The only condition that fails is the shell command \<open>false\<close>.
\<close>

definition demo_config :: config where
  "demo_config =
     \<lparr>dotfiles = [(''.vimrc'', Map.empty),
                  (''/etc/hosts'', [''reinstall_condition'' \<mapsto> ''false'']),
                  (''.zshrc'', Map.empty)],
      config_mapping = [(''/home/u/.config/my app'', ''my app'')]\<rparr>"

definition demo_env :: "string list \<Rightarrow> string list \<Rightarrow> string list \<Rightarrow> string list \<Rightarrow> unit env" where
  "demo_env files dirs denied broken =
     \<lparr>exit_if_dir_is_empty = (\<lambda>w p t. False),
      get_config = (\<lambda>w. demo_config),
      evaluate_condition = (\<lambda>w condition b p. (condition \<noteq> ''false'', w)),
      isfile = (\<lambda>w p. p \<in> set files),
      isdir = (\<lambda>w p. p \<in> set dirs),
      get_abs_path_subfiles = (\<lambda>w p. []),
      safe_mkdir = (\<lambda>w p. (None, w)),
      copy = (\<lambda>w s d.
        (if s \<notin> set files then Some (FileNotFoundError s)
         else if d \<in> set denied then Some (PermissionError d)
         else if d \<in> set broken then Some (OtherError d)
         else None, w)),
      copyfile = (\<lambda>w s d. (if s \<notin> set files then Some (FileNotFoundError s) else None, w)),
      copytree = (\<lambda>w s d. (if s \<notin> set dirs then Some (FileNotFoundError s) else None, w)),
      find_path_for_permission_error_reporting = (\<lambda>p. p),
      get_fonts_dir = (\<lambda>w. ''/home/u/.fonts''),
      listdir = (\<lambda>w p. [''brew_list.txt'', ''unknownmgr_list.txt'']),
      run_cmd = (\<lambda>w c. (0, w)),
      read_lines = (\<lambda>w p. Inl (FileNotFoundError p)),
      set_iteration = sorted_list_of_set\<rparr>"

text \<open>
  A second world, for a helper \<open>find_path_for_permission_error_reporting\<close> that reports
  the enclosing \<open>.git\<close> directory of a path inside one and any other path as it is, and
  for a configuration with two files of one repository. The helper of \<open>utils\<close> is not
  part of the module; this is one function it may be.
\<close>

fun git_dir_prefix :: "string \<Rightarrow> string option" where
  "git_dir_prefix [] = None"
| "git_dir_prefix (c # cs) =
     (if startswith (c # cs) ''/.git/'' then Some ''/.git''
      else map_option ((#) c) (git_dir_prefix cs))"

definition report_git_dir :: "string \<Rightarrow> string" where
  "report_git_dir p = (case git_dir_prefix p of None \<Rightarrow> p | Some d \<Rightarrow> d)"

definition demo_git_env :: "unit env" where
  "demo_git_env =
     (demo_env [''/backup/r/.git/a'', ''/backup/r/.git/b''] []
               [''/home/u/r/.git/a'', ''/home/u/r/.git/b''] [])
       \<lparr>get_config := (\<lambda>w. \<lparr>dotfiles = [(''r/.git/a'', Map.empty), (''r/.git/b'', Map.empty)],
                               config_mapping = []\<rparr>),
        find_path_for_permission_error_reporting := report_git_dir\<rparr>"

section \<open>Round trip of absolute identifiers\<close>

lemma startswith_append: "startswith (p @ s) p"
  by (simp add: startswith_def)

lemma join_sentinel:
  "py_join a ('':'' @ r) = py_join a '':'' @ r"
  by (simp add: py_join_def startswith_def)

text \<open>
  C1. For every identifier \<open>P\<close> that begins with the separator, the source path built
  by lines 46-49 is taken by lines 63-65 back to \<open>P\<close> itself, whatever the backup root
  and the home directory are; the destination of the resolved pair is the path object
  of \<open>P\<close>.
\<close>

theorem encode_decode_roundtrip:
  "startswith P ''/'' \<Longrightarrow>
     dest_of dots_path home_path (real_path_dotfile dots_path P) = P
     \<and> snd (resolve_pair dots_path home_path (real_path_dotfile dots_path P)) = Path P"
proof -
  assume a: "startswith P ''/''"
  then obtain r where P: "P = CHR ''/'' # r"
    by (cases P) (auto simp: startswith_def)
  have src: "real_path_dotfile dots_path P = py_join dots_path '':'' @ r"
    using join_sentinel [of dots_path r]
    by (simp add: real_path_dotfile_def encode_identifier_def P startswith_def)
  have "dest_of dots_path home_path (real_path_dotfile dots_path P) = P"
    unfolding src dest_of_def Let_def
    by (simp add: startswith_append P)
  then show ?thesis
    by (simp add: resolve_pair_def)
qed

theorem encode_decode_roundtrip_witness:
  "startswith ''/etc/hosts'' ''/''
   \<and> real_path_dotfile ''/backup'' ''/etc/hosts'' = ''/backup/:etc/hosts''
   \<and> dest_of ''/backup'' ''/home/u'' ''/backup/:etc/hosts'' = ''/etc/hosts''
   \<and> snd (resolve_pair ''/backup'' ''/home/u'' ''/backup/:etc/hosts'') = Path ''/etc/hosts''"
proof -
  have h: "startswith ''/etc/hosts'' ''/''"
    by (simp add: startswith_def)
  have s: "real_path_dotfile ''/backup'' ''/etc/hosts'' = ''/backup/:etc/hosts''"
    by (simp add: real_path_dotfile_def encode_identifier_def py_join_def startswith_def)
  show ?thesis
    using h s encode_decode_roundtrip [OF h, of "''/backup''" "''/home/u''"] by simp
qed

section \<open>Destinations of home-relative sources\<close>

text \<open>
  C2. Line 68 computes the destination of a home-relative source with \<open>str.replace\<close>,
  which replaces every occurrence of \<open>dots_path\<close> in the source and not only the prefix.
  With backup root \<open>/backup\<close> and home \<open>/home/u\<close> the source \<open>/backup/.vimrc\<close> goes to
  \<open>/home/u/.vimrc\<close>, but the source \<open>/backup/.config/backup/x\<close>, which does not start
  with the sentinel prefix, goes to \<open>/home/u/.config/home/u/x\<close> and not to the home
  directory followed by the source without its prefix, \<open>/home/u/.config/backup/x\<close>. It
  is the source of the identifier \<open>.config/backup/x\<close>.
\<close>

theorem home_relative_dest_replaces_every_occurrence:
  "real_path_dotfile ''/backup'' ''.config/backup/x'' = ''/backup/.config/backup/x''
   \<and> \<not> startswith ''/backup/.config/backup/x'' (py_join ''/backup'' '':'')
   \<and> str_path (snd (resolve_pair ''/backup'' ''/home/u'' ''/backup/.config/backup/x''))
       = ''/home/u/.config/home/u/x''
   \<and> ''/home/u'' @ drop (length ''/backup'') ''/backup/.config/backup/x''
       = ''/home/u/.config/backup/x''
   \<and> str_path (snd (resolve_pair ''/backup'' ''/home/u'' ''/backup/.vimrc'')) = ''/home/u/.vimrc''"
  by (simp add: resolve_pair_def dest_of_def py_join_def startswith_def str_replace_def
        Path_def splitroot_def str_path_def real_path_dotfile_def encode_identifier_def)

section \<open>Dry run\<close>

lemma copy_dotfiles_dry_run:
  "copy_dotfiles E True prs st =
     Inr (st\<lparr>trace := trace st
            @ map (\<lambda>pr. Print (Dry_run_copy_info (str_path (fst pr)) (str_path (snd pr)))) prs\<rparr>)"
  by (induction prs arbitrary: st) (simp_all add: copy_dotfile_def emit_def split: prod.splits)

lemma commands_run_append: "commands_run (xs @ ys) = commands_run xs @ commands_run ys"
  by (induction xs rule: commands_run.induct) simp_all

lemma run_cmd_dry_run:
  "world (snd (run_cmd_if_no_dry_run E command True s)) = world s
   \<and> commands_run (trace (snd (run_cmd_if_no_dry_run E command True s)))
     = commands_run (trace s)"
  by (simp add: run_cmd_if_no_dry_run_def emit_def commands_run_append)

lemma vscode_dry_run:
  "world (fold (\<lambda>package s. snd (run_cmd_if_no_dry_run E (f package) True s)) lines st)
     = world st
   \<and> commands_run (trace (fold (\<lambda>package s. snd (run_cmd_if_no_dry_run E (f package) True s))
                              lines st))
     = commands_run (trace st)"
  by (induction lines arbitrary: st) (simp_all add: run_cmd_dry_run)

lemma reinstall_package_dry_run:
  "result_world (reinstall_package E packages_path True pm st) = world st
   \<and> commands_run (result_trace (reinstall_package E packages_path True pm st))
     = commands_run (trace st)"
  by (simp add: reinstall_package_def result_world_def result_trace_def vscode_dry_run
        run_cmd_dry_run emit_def commands_run_append split: sum.splits)

lemma reinstall_packages_dry_run:
  "result_world (reinstall_packages E packages_path True pms st) = world st
   \<and> commands_run (result_trace (reinstall_packages E packages_path True pms st))
     = commands_run (trace st)"
proof (induction pms arbitrary: st)
  case Nil
  show ?case by (simp add: result_world_def result_trace_def)
next
  case (Cons pm pms)
  show ?case
  proof (cases "reinstall_package E packages_path True pm st")
    case (Inl a)
    then show ?thesis
      using reinstall_package_dry_run [of E packages_path pm st] by simp
  next
    case (Inr st1)
    then have "world st1 = world st" "commands_run (trace st1) = commands_run (trace st)"
      using reinstall_package_dry_run [of E packages_path pm st]
      by (simp_all add: result_world_def result_trace_def)
    then show ?thesis
      using Inr Cons.IH [of st1] by simp
  qed
qed

lemma commands_run_yellow:
  "commands_run (map (\<lambda>mgr. Print (Yellow (CHR 0x09 # mgr))) order) = []"
  by (induction order) simp_all

text \<open>
  C3. In a dry run the copy loop returns the state it was given with one
  \<open>Dry_run_copy_info\<close> line per pair appended to the trace: the world, the error count and
  the set of permission errors are untouched, and no \<open>safe_mkdir\<close> or \<open>copy\<close> is called.
  The whole of \<open>reinstall_dots_sb\<close> then prints the two headers and these lines only, in
  the world the condition evaluator left. \<open>run_cmd_if_no_dry_run\<close> prints the command
  after \<open>$\<close> and returns 0 without calling \<open>run_cmd\<close>, and the whole of
  \<open>reinstall_packages_sb\<close> ends in the world it started in, no command run.
\<close>

theorem dry_run_reports_and_touches_nothing:
  "copy_dotfiles E True prs st =
     Inr (st\<lparr>trace := trace st
            @ map (\<lambda>pr. Print (Dry_run_copy_info (str_path (fst pr)) (str_path (snd pr)))) prs\<rparr>)
   \<and> reinstall_dots_sb E dots_path home_path True w =
       (if exit_if_dir_is_empty E w dots_path ''dotfile''
        then Inl (SystemExit, \<lparr>world = w, trace = []\<rparr>)
        else Inr \<lparr>world = snd (collect_dotfiles E dots_path (dotfiles (get_config E w)) ([], w)),
                  trace = [Print (Section_header ''REINSTALLING DOTFILES'')]
                    @ map (\<lambda>pr. Print (Dry_run_copy_info (str_path (fst pr)) (str_path (snd pr))))
                        (map (resolve_pair dots_path home_path)
                           (fst (collect_dotfiles E dots_path (dotfiles (get_config E w)) ([], w))))
                    @ [Print (Section_header ''DOTFILE REINSTALLATION COMPLETED'')]\<rparr>)
   \<and> run_cmd_if_no_dry_run E command True io =
       (0, io\<lparr>trace := trace io @ [Print (Yellow_bold (''$ '' @ command))]\<rparr>)
   \<and> result_world (reinstall_packages_sb E packages_path True w) = w
   \<and> commands_run (result_trace (reinstall_packages_sb E packages_path True w)) = []"
proof -
  have dots: "reinstall_dots_sb E dots_path home_path True w =
       (if exit_if_dir_is_empty E w dots_path ''dotfile''
        then Inl (SystemExit, \<lparr>world = w, trace = []\<rparr>)
        else Inr \<lparr>world = snd (collect_dotfiles E dots_path (dotfiles (get_config E w)) ([], w)),
                  trace = [Print (Section_header ''REINSTALLING DOTFILES'')]
                    @ map (\<lambda>pr. Print (Dry_run_copy_info (str_path (fst pr)) (str_path (snd pr))))
                        (map (resolve_pair dots_path home_path)
                           (fst (collect_dotfiles E dots_path (dotfiles (get_config E w)) ([], w))))
                    @ [Print (Section_header ''DOTFILE REINSTALLATION COMPLETED'')]\<rparr>)"
    by (simp add: copy_dotfiles_dry_run reinstall_dots_sb_def end_of_batch_def emit_def
          split: prod.splits)
  have cmd: "run_cmd_if_no_dry_run E command True io =
       (0, io\<lparr>trace := trace io @ [Print (Yellow_bold (''$ '' @ command))]\<rparr>)"
    by (simp add: run_cmd_if_no_dry_run_def emit_def)
  let ?order = "set_iteration E (find_package_mgrs (listdir E w packages_path) {})"
  let ?st = "\<lparr>world = w,
              trace = [Print (Section_header ''REINSTALLING PACKAGES''),
                       Print (Blue_bold ''Package Manager Backups Found:'')]
                      @ map (\<lambda>mgr. Print (Yellow (CHR 0x09 # mgr))) ?order
                      @ [Print Blank_line]\<rparr>"
  have loop: "result_world (reinstall_packages E packages_path True ?order ?st) = w
      \<and> commands_run (result_trace (reinstall_packages E packages_path True ?order ?st)) = []"
    using reinstall_packages_dry_run [of E packages_path ?order ?st]
    by (simp add: commands_run_append commands_run_yellow)
  have pk: "result_world (reinstall_packages_sb E packages_path True w) = w
      \<and> commands_run (result_trace (reinstall_packages_sb E packages_path True w)) = []"
  proof (cases "reinstall_packages E packages_path True ?order ?st")
    case (Inl a)
    then show ?thesis
      using loop
      by (simp add: reinstall_packages_sb_def Let_def result_world_def result_trace_def)
  next
    case (Inr st1)
    then show ?thesis
      using loop
      by (simp add: reinstall_packages_sb_def Let_def result_world_def result_trace_def
            emit_def commands_run_append)
  qed
  show ?thesis
    using copy_dotfiles_dry_run [of E prs st] dots cmd pk by simp
qed

section \<open>The copy loop\<close>

lemma demo_paths:
  "str_path (Path ''/home/u/.vimrc/plugin.vim'') = ''/home/u/.vimrc/plugin.vim''"
  "str_path (parent (Path ''/home/u/.vimrc/plugin.vim'')) = ''/home/u/.vimrc''"
  "str_path (Path ''/backup/.vimrc/plugin.vim'') = ''/backup/.vimrc/plugin.vim''"
  "str_path (Path ''/backup/.zshrc'') = ''/backup/.zshrc''"
  "str_path (Path ''/home/u/.zshrc'') = ''/home/u/.zshrc''"
  "str_path (parent (Path ''/home/u/.zshrc'')) = ''/home/u''"
  "str_path (Path ''/backup/.vimrc'') = ''/backup/.vimrc''"
  "str_path (Path ''/home/u/.vimrc'') = ''/home/u/.vimrc''"
  "str_path (parent (Path ''/home/u/.vimrc'')) = ''/home/u''"
  "str_path (Path ''/backup/.bashrc'') = ''/backup/.bashrc''"
  "str_path (Path ''/home/u/.bashrc'') = ''/home/u/.bashrc''"
  "str_path (parent (Path ''/home/u/.bashrc'')) = ''/home/u''"
  by (simp_all add: Path_def splitroot_def str_path_def parent_def)

text \<open>
  C4. Outside a dry run, when the parent of the destination is a regular file, the
  body of the loop prints the diagnostic with the parent and the destination, adds
  exactly 1 to the error count, changes nothing else (the world is the same: no
  \<open>safe_mkdir\<close>, no \<open>copy\<close>) and the loop goes on with the remaining pairs.
\<close>

theorem parent_is_file_conflict:
  "isfile E (world st) (str_path (parent dot_dest)) \<Longrightarrow>
     copy_dotfile E False (dot_source, dot_dest) st =
       Inr (st\<lparr>trace := trace st
                    @ [Print (Parent_is_file (str_path (parent dot_dest)) (str_path dot_dest))],
               reinstallation_error_count := reinstallation_error_count st + 1\<rparr>)
     \<and> copy_dotfiles E False ((dot_source, dot_dest) # prs) st =
         copy_dotfiles E False prs
           (st\<lparr>trace := trace st
                    @ [Print (Parent_is_file (str_path (parent dot_dest)) (str_path dot_dest))],
               reinstallation_error_count := reinstallation_error_count st + 1\<rparr>)"
  by (simp add: copy_dotfile_def emit_def)

theorem parent_is_file_conflict_witness:
  "isfile (demo_env [''/home/u/.vimrc'', ''/backup/.zshrc''] [] [] []) ()
       (str_path (parent (Path ''/home/u/.vimrc/plugin.vim'')))
   \<and> copy_dotfiles (demo_env [''/home/u/.vimrc'', ''/backup/.zshrc''] [] [] []) False
         [(Path ''/backup/.vimrc/plugin.vim'', Path ''/home/u/.vimrc/plugin.vim''),
          (Path ''/backup/.zshrc'', Path ''/home/u/.zshrc'')]
         \<lparr>world = (), trace = [], reinstallation_error_count = 0,
          files_with_permission_errors = {}\<rparr>
       = Inr \<lparr>world = (),
              trace = [Print (Parent_is_file ''/home/u/.vimrc'' ''/home/u/.vimrc/plugin.vim''),
                       Safe_mkdir ''/home/u'' None,
                       Copy ''/backup/.zshrc'' ''/home/u/.zshrc'' None],
              reinstallation_error_count = 1,
              files_with_permission_errors = {}\<rparr>"
proof -
  let ?E = "demo_env [''/home/u/.vimrc'', ''/backup/.zshrc''] [] [] []"
  have h: "isfile ?E (world \<lparr>world = (), trace = [], reinstallation_error_count = 0,
          files_with_permission_errors = {}\<rparr>)
            (str_path (parent (Path ''/home/u/.vimrc/plugin.vim'')))"
    by (simp add: demo_env_def demo_paths)
  show ?thesis
    using h parent_is_file_conflict [OF h, of "Path ''/backup/.vimrc/plugin.vim''"
        "[(Path ''/backup/.zshrc'', Path ''/home/u/.zshrc'')]"]
    by (simp add: demo_paths copy_dotfile_def emit_def demo_env_def)
qed

text \<open>
  C5. Outside a dry run, for a pair whose parent is not a regular file and whose
  \<open>safe_mkdir\<close> returned, let \<open>r\<close> be what \<open>copy\<close> answered and \<open>st2\<close> the state with the
  two calls recorded. A \<open>PermissionError\<close> adds the reported path to
  \<open>files_with_permission_errors\<close> and the loop goes on; a \<open>FileNotFoundError\<close> is printed
  and the loop goes on; any other exception ends the loop with that exception, the
  remaining pairs unprocessed; and the body raises exactly when \<open>copy\<close> raised an
  exception that is neither of the two. An exception that ends the loop ends
  \<open>reinstall_dots_sb\<close>.
\<close>

theorem copy_failures_absorbed_or_propagated:
  assumes "\<not> isfile E (world st) (str_path (parent dot_dest))"
    and "safe_mkdir E (world st) (str_path (parent dot_dest)) = (None, w1)"
    and "copy E w1 (str_path dot_source) (str_path dot_dest) = (r, w2)"
    and "st2 = st\<lparr>world := w2,
                   trace := trace st @ [Safe_mkdir (str_path (parent dot_dest)) None,
                                        Copy (str_path dot_source) (str_path dot_dest) r]\<rparr>"
  shows "(\<forall>filename. r = Some (PermissionError filename) \<longrightarrow>
            copy_dotfiles E False ((dot_source, dot_dest) # prs) st =
              copy_dotfiles E False prs
                (st2\<lparr>files_with_permission_errors :=
                       insert (find_path_for_permission_error_reporting E filename)
                         (files_with_permission_errors st)\<rparr>))
       \<and> (\<forall>err. r = Some (FileNotFoundError err) \<longrightarrow>
            copy_dotfiles E False ((dot_source, dot_dest) # prs) st =
              copy_dotfiles E False prs
                (st2\<lparr>trace := trace st2 @ [Print (Red_bold (''ERROR: '' @ err))]\<rparr>))
       \<and> (\<forall>e. r = Some e \<longrightarrow> (\<forall>filename. e \<noteq> PermissionError filename) \<longrightarrow>
                (\<forall>err. e \<noteq> FileNotFoundError err) \<longrightarrow>
            copy_dotfiles E False ((dot_source, dot_dest) # prs) st = Inl (e, io_of st2))
       \<and> ((\<exists>a. copy_dotfile E False (dot_source, dot_dest) st = Inl a) \<longleftrightarrow>
            (\<exists>e. r = Some e \<and> (\<forall>filename. e \<noteq> PermissionError filename)
                  \<and> (\<forall>err. e \<noteq> FileNotFoundError err)))
       \<and> (\<forall>a. \<not> exit_if_dir_is_empty E w dots_path ''dotfile'' \<longrightarrow>
            copy_dotfiles E False
              (map (resolve_pair dots_path home_path)
                 (fst (collect_dotfiles E dots_path (dotfiles (get_config E w)) ([], w))))
              \<lparr>world = snd (collect_dotfiles E dots_path (dotfiles (get_config E w)) ([], w)),
               trace = [Print (Section_header ''REINSTALLING DOTFILES'')],
               reinstallation_error_count = 0,
               files_with_permission_errors = {}\<rparr> = Inl a \<longrightarrow>
            reinstall_dots_sb E dots_path home_path False w = Inl a)"
proof -
  have body: "copy_dotfile E False (dot_source, dot_dest) st =
      (case r of
         None \<Rightarrow> Inr st2
       | Some (PermissionError filename) \<Rightarrow>
           Inr (st2\<lparr>files_with_permission_errors :=
                  insert (find_path_for_permission_error_reporting E filename)
                    (files_with_permission_errors st)\<rparr>)
       | Some (FileNotFoundError err) \<Rightarrow>
           Inr (st2\<lparr>trace := trace st2 @ [Print (Red_bold (''ERROR: '' @ err))]\<rparr>)
       | Some e \<Rightarrow> Inl (e, io_of st2))"
    using assms by (simp add: copy_dotfile_def emit_def split: option.splits py_exn.splits)
  have loop: "(\<forall>filename. r = Some (PermissionError filename) \<longrightarrow>
            copy_dotfiles E False ((dot_source, dot_dest) # prs) st =
              copy_dotfiles E False prs
                (st2\<lparr>files_with_permission_errors :=
                       insert (find_path_for_permission_error_reporting E filename)
                         (files_with_permission_errors st)\<rparr>))
       \<and> (\<forall>err. r = Some (FileNotFoundError err) \<longrightarrow>
            copy_dotfiles E False ((dot_source, dot_dest) # prs) st =
              copy_dotfiles E False prs
                (st2\<lparr>trace := trace st2 @ [Print (Red_bold (''ERROR: '' @ err))]\<rparr>))
       \<and> (\<forall>e. r = Some e \<longrightarrow> (\<forall>filename. e \<noteq> PermissionError filename) \<longrightarrow>
                (\<forall>err. e \<noteq> FileNotFoundError err) \<longrightarrow>
            copy_dotfiles E False ((dot_source, dot_dest) # prs) st = Inl (e, io_of st2))
       \<and> ((\<exists>a. copy_dotfile E False (dot_source, dot_dest) st = Inl a) \<longleftrightarrow>
            (\<exists>e. r = Some e \<and> (\<forall>filename. e \<noteq> PermissionError filename)
                  \<and> (\<forall>err. e \<noteq> FileNotFoundError err)))"
    unfolding copy_dotfiles.simps body
    by (cases r; simp split: py_exn.splits)
  have entry: "\<forall>a. \<not> exit_if_dir_is_empty E w dots_path ''dotfile'' \<longrightarrow>
            copy_dotfiles E False
              (map (resolve_pair dots_path home_path)
                 (fst (collect_dotfiles E dots_path (dotfiles (get_config E w)) ([], w))))
              \<lparr>world = snd (collect_dotfiles E dots_path (dotfiles (get_config E w)) ([], w)),
               trace = [Print (Section_header ''REINSTALLING DOTFILES'')],
               reinstallation_error_count = 0,
               files_with_permission_errors = {}\<rparr> = Inl a \<longrightarrow>
            reinstall_dots_sb E dots_path home_path False w = Inl a"
    by (simp add: reinstall_dots_sb_def split: prod.splits)
  from loop entry show ?thesis by blast
qed

theorem copy_failures_absorbed_or_propagated_witness:
  "copy_dotfiles
     (demo_env [''/backup/.vimrc'', ''/backup/.bashrc''] [] [''/home/u/.vimrc'']
        [''/home/u/.bashrc''])
     False
     [(Path ''/backup/.vimrc'', Path ''/home/u/.vimrc''),
      (Path ''/backup/.zshrc'', Path ''/home/u/.zshrc''),
      (Path ''/backup/.bashrc'', Path ''/home/u/.bashrc''),
      (Path ''/backup/.vimrc'', Path ''/home/u/.vimrc'')]
     \<lparr>world = (), trace = [], reinstallation_error_count = 0,
      files_with_permission_errors = {}\<rparr>
   = Inl (OtherError ''/home/u/.bashrc'',
          \<lparr>world = (),
           trace = [Safe_mkdir ''/home/u'' None,
                    Copy ''/backup/.vimrc'' ''/home/u/.vimrc''
                      (Some (PermissionError ''/home/u/.vimrc'')),
                    Safe_mkdir ''/home/u'' None,
                    Copy ''/backup/.zshrc'' ''/home/u/.zshrc''
                      (Some (FileNotFoundError ''/backup/.zshrc'')),
                    Print (Red_bold ''ERROR: /backup/.zshrc''),
                    Safe_mkdir ''/home/u'' None,
                    Copy ''/backup/.bashrc'' ''/home/u/.bashrc''
                      (Some (OtherError ''/home/u/.bashrc''))]\<rparr>)
   \<and> reinstall_dots_sb
       (demo_env [''/backup/.vimrc'', ''/backup/.zshrc''] [] [] [''/home/u/.zshrc''])
       ''/backup'' ''/home/u'' False ()
     = Inl (OtherError ''/home/u/.zshrc'',
            \<lparr>world = (),
             trace = [Print (Section_header ''REINSTALLING DOTFILES''),
                      Safe_mkdir ''/home/u'' None,
                      Copy ''/backup/.vimrc'' ''/home/u/.vimrc'' None,
                      Safe_mkdir ''/home/u'' None,
                      Copy ''/backup/.zshrc'' ''/home/u/.zshrc''
                        (Some (OtherError ''/home/u/.zshrc''))]\<rparr>)"
proof -
  let ?E = "demo_env [''/backup/.vimrc'', ''/backup/.bashrc''] [] [''/home/u/.vimrc'']
        [''/home/u/.bashrc'']"
  let ?st0 = "\<lparr>world = (), trace = [], reinstallation_error_count = 0,
      files_with_permission_errors = {}\<rparr> :: unit dots_state"
  let ?st1 = "\<lparr>world = (),
      trace = [Safe_mkdir ''/home/u'' None,
               Copy ''/backup/.vimrc'' ''/home/u/.vimrc''
                 (Some (PermissionError ''/home/u/.vimrc''))],
      reinstallation_error_count = 0,
      files_with_permission_errors = {''/home/u/.vimrc''}\<rparr> :: unit dots_state"
  let ?st2 = "\<lparr>world = (),
      trace = [Safe_mkdir ''/home/u'' None,
               Copy ''/backup/.vimrc'' ''/home/u/.vimrc''
                 (Some (PermissionError ''/home/u/.vimrc'')),
               Safe_mkdir ''/home/u'' None,
               Copy ''/backup/.zshrc'' ''/home/u/.zshrc''
                 (Some (FileNotFoundError ''/backup/.zshrc'')),
               Print (Red_bold ''ERROR: /backup/.zshrc'')],
      reinstallation_error_count = 0,
      files_with_permission_errors = {''/home/u/.vimrc''}\<rparr> :: unit dots_state"
  have n1: "\<not> isfile ?E (world ?st0) (str_path (parent (Path ''/home/u/.vimrc'')))"
    and n2: "\<not> isfile ?E (world ?st1) (str_path (parent (Path ''/home/u/.zshrc'')))"
    and n3: "\<not> isfile ?E (world ?st2) (str_path (parent (Path ''/home/u/.bashrc'')))"
    by (simp_all add: demo_env_def demo_paths)
  have m1: "safe_mkdir ?E (world ?st0) (str_path (parent (Path ''/home/u/.vimrc''))) = (None, ())"
    and m2: "safe_mkdir ?E (world ?st1) (str_path (parent (Path ''/home/u/.zshrc''))) = (None, ())"
    and m3: "safe_mkdir ?E (world ?st2) (str_path (parent (Path ''/home/u/.bashrc''))) = (None, ())"
    by (simp_all add: demo_env_def)
  have c1: "copy ?E () (str_path (Path ''/backup/.vimrc'')) (str_path (Path ''/home/u/.vimrc''))
      = (Some (PermissionError ''/home/u/.vimrc''), ())"
    and c2: "copy ?E () (str_path (Path ''/backup/.zshrc'')) (str_path (Path ''/home/u/.zshrc''))
      = (Some (FileNotFoundError ''/backup/.zshrc''), ())"
    and c3: "copy ?E () (str_path (Path ''/backup/.bashrc'')) (str_path (Path ''/home/u/.bashrc''))
      = (Some (OtherError ''/home/u/.bashrc''), ())"
    by (simp_all add: demo_env_def demo_paths)
  note t1 = copy_failures_absorbed_or_propagated [OF n1 m1 c1 refl,
      of "[(Path ''/backup/.zshrc'', Path ''/home/u/.zshrc''),
           (Path ''/backup/.bashrc'', Path ''/home/u/.bashrc''),
           (Path ''/backup/.vimrc'', Path ''/home/u/.vimrc'')]"]
  note t2 = copy_failures_absorbed_or_propagated [OF n2 m2 c2 refl,
      of "[(Path ''/backup/.bashrc'', Path ''/home/u/.bashrc''),
           (Path ''/backup/.vimrc'', Path ''/home/u/.vimrc'')]"]
  note t3 = copy_failures_absorbed_or_propagated [OF n3 m3 c3 refl,
      of "[(Path ''/backup/.vimrc'', Path ''/home/u/.vimrc'')]"]
  have s1: "copy_dotfiles ?E False
     [(Path ''/backup/.vimrc'', Path ''/home/u/.vimrc''),
      (Path ''/backup/.zshrc'', Path ''/home/u/.zshrc''),
      (Path ''/backup/.bashrc'', Path ''/home/u/.bashrc''),
      (Path ''/backup/.vimrc'', Path ''/home/u/.vimrc'')] ?st0
    = copy_dotfiles ?E False
     [(Path ''/backup/.zshrc'', Path ''/home/u/.zshrc''),
      (Path ''/backup/.bashrc'', Path ''/home/u/.bashrc''),
      (Path ''/backup/.vimrc'', Path ''/home/u/.vimrc'')] ?st1"
    using t1 by (simp add: demo_env_def demo_paths)
  have s2: "copy_dotfiles ?E False
     [(Path ''/backup/.zshrc'', Path ''/home/u/.zshrc''),
      (Path ''/backup/.bashrc'', Path ''/home/u/.bashrc''),
      (Path ''/backup/.vimrc'', Path ''/home/u/.vimrc'')] ?st1
    = copy_dotfiles ?E False
     [(Path ''/backup/.bashrc'', Path ''/home/u/.bashrc''),
      (Path ''/backup/.vimrc'', Path ''/home/u/.vimrc'')] ?st2"
    using t2 by (simp add: demo_paths)
  have s3: "copy_dotfiles ?E False
     [(Path ''/backup/.bashrc'', Path ''/home/u/.bashrc''),
      (Path ''/backup/.vimrc'', Path ''/home/u/.vimrc'')] ?st2
    = Inl (OtherError ''/home/u/.bashrc'',
          \<lparr>world = (),
           trace = [Safe_mkdir ''/home/u'' None,
                    Copy ''/backup/.vimrc'' ''/home/u/.vimrc''
                      (Some (PermissionError ''/home/u/.vimrc'')),
                    Safe_mkdir ''/home/u'' None,
                    Copy ''/backup/.zshrc'' ''/home/u/.zshrc''
                      (Some (FileNotFoundError ''/backup/.zshrc'')),
                    Print (Red_bold ''ERROR: /backup/.zshrc''),
                    Safe_mkdir ''/home/u'' None,
                    Copy ''/backup/.bashrc'' ''/home/u/.bashrc''
                      (Some (OtherError ''/home/u/.bashrc''))]\<rparr>)"
    using t3 by (simp add: demo_paths io_of_def)
  let ?D = "demo_env [''/backup/.vimrc'', ''/backup/.zshrc''] [] [] [''/home/u/.zshrc'']"
  have col: "collect_dotfiles ?D ''/backup'' (dotfiles (get_config ?D ())) ([], ())
      = ([''/backup/.vimrc'', ''/backup/.zshrc''], ())"
    by (simp add: demo_env_def demo_config_def real_path_dotfile_def encode_identifier_def
          py_join_def startswith_def)
  have prs: "map (resolve_pair ''/backup'' ''/home/u'') [''/backup/.vimrc'', ''/backup/.zshrc'']
      = [(Path ''/backup/.vimrc'', Path ''/home/u//.vimrc''),
         (Path ''/backup/.zshrc'', Path ''/home/u//.zshrc'')]"
    by (simp add: resolve_pair_def dest_of_def py_join_def startswith_def str_replace_def)
  have norm: "Path ''/home/u//.vimrc'' = Path ''/home/u/.vimrc''"
    "Path ''/home/u//.zshrc'' = Path ''/home/u/.zshrc''"
    by (simp_all add: Path_def splitroot_def)
  have run: "copy_dotfiles ?D False
      [(Path ''/backup/.vimrc'', Path ''/home/u/.vimrc''),
       (Path ''/backup/.zshrc'', Path ''/home/u/.zshrc'')]
      \<lparr>world = (), trace = [Print (Section_header ''REINSTALLING DOTFILES'')],
       reinstallation_error_count = 0, files_with_permission_errors = {}\<rparr>
     = Inl (OtherError ''/home/u/.zshrc'',
            \<lparr>world = (),
             trace = [Print (Section_header ''REINSTALLING DOTFILES''),
                      Safe_mkdir ''/home/u'' None,
                      Copy ''/backup/.vimrc'' ''/home/u/.vimrc'' None,
                      Safe_mkdir ''/home/u'' None,
                      Copy ''/backup/.zshrc'' ''/home/u/.zshrc''
                        (Some (OtherError ''/home/u/.zshrc''))]\<rparr>)"
    by (simp add: copy_dotfile_def demo_paths demo_env_def emit_def io_of_def)
  have n4: "\<not> isfile ?D (world ?st0) (str_path (parent (Path ''/home/u/.vimrc'')))"
    and m4: "safe_mkdir ?D (world ?st0) (str_path (parent (Path ''/home/u/.vimrc''))) = (None, ())"
    and c4: "copy ?D () (str_path (Path ''/backup/.vimrc'')) (str_path (Path ''/home/u/.vimrc''))
      = (None, ())"
    by (simp_all add: demo_env_def demo_paths)
  note t4 = copy_failures_absorbed_or_propagated [OF n4 m4 c4 refl,
      of "[]" "()" "''/backup''" "''/home/u''"]
  have noexit: "\<not> exit_if_dir_is_empty ?D () ''/backup'' ''dotfile''"
    by (simp add: demo_env_def)
  have s4: "reinstall_dots_sb ?D ''/backup'' ''/home/u'' False ()
     = Inl (OtherError ''/home/u/.zshrc'',
            \<lparr>world = (),
             trace = [Print (Section_header ''REINSTALLING DOTFILES''),
                      Safe_mkdir ''/home/u'' None,
                      Copy ''/backup/.vimrc'' ''/home/u/.vimrc'' None,
                      Safe_mkdir ''/home/u'' None,
                      Copy ''/backup/.zshrc'' ''/home/u/.zshrc''
                        (Some (OtherError ''/home/u/.zshrc''))]\<rparr>)"
    using t4 [THEN conjunct2, THEN conjunct2, THEN conjunct2, THEN conjunct2, rule_format,
        OF noexit, unfolded col fst_conv snd_conv prs norm, OF run] .
  show ?thesis
    using s1 s2 s3 s4 by simp
qed

section \<open>Permission errors of a batch\<close>

lemma permission_failures_append:
  "permission_failures (xs @ ys) = permission_failures xs @ permission_failures ys"
  by (induction xs rule: permission_failures.induct) simp_all

lemma propagated_append: "propagated (xs @ ys) = propagated xs @ propagated ys"
  by (induction xs rule: propagated.induct) simp_all

lemma copy_dotfile_keeps_invariant:
  assumes "copy_dotfile E False pr st = Inr st'"
    and "files_with_permission_errors st =
           find_path_for_permission_error_reporting E ` set (permission_failures (trace st))"
    and "propagated (trace st) = []"
  shows "files_with_permission_errors st' =
           find_path_for_permission_error_reporting E ` set (permission_failures (trace st'))
         \<and> propagated (trace st') = []"
  using assms
  by (cases pr)
     (auto simp: copy_dotfile_def emit_def Let_def permission_failures_append propagated_append
        split: if_splits prod.splits option.splits py_exn.splits)

lemma copy_dotfile_abort_is_recorded:
  assumes "copy_dotfile E False pr st = Inl (e, io)"
  shows "propagated (trace io) \<noteq> []"
  using assms
  by (cases pr)
     (auto simp: copy_dotfile_def emit_def io_of_def Let_def propagated_append
        split: if_splits prod.splits option.splits py_exn.splits)

lemma copy_dotfiles_invariant:
  assumes "files_with_permission_errors st =
             find_path_for_permission_error_reporting E ` set (permission_failures (trace st))"
    and "propagated (trace st) = []"
    and "propagated (result_trace (copy_dotfiles E False prs st)) = []"
  shows "\<exists>st'. copy_dotfiles E False prs st = Inr st'
           \<and> files_with_permission_errors st' =
               find_path_for_permission_error_reporting E
                 ` set (permission_failures (trace st'))"
  using assms
proof (induction prs arbitrary: st)
  case Nil
  then show ?case by simp
next
  case (Cons pr prs)
  show ?case
  proof (cases "copy_dotfile E False pr st")
    case (Inl a)
    obtain e io where a: "a = (e, io)" by (cases a)
    have "propagated (trace io) \<noteq> []"
      using copy_dotfile_abort_is_recorded Inl a by blast
    moreover have "result_trace (copy_dotfiles E False (pr # prs) st) = trace io"
      using Inl a by (simp add: result_trace_def)
    ultimately show ?thesis using Cons.prems(3) by simp
  next
    case (Inr st1)
    have inv: "files_with_permission_errors st1 =
           find_path_for_permission_error_reporting E ` set (permission_failures (trace st1))
         \<and> propagated (trace st1) = []"
      using copy_dotfile_keeps_invariant [OF Inr Cons.prems(1) Cons.prems(2)] .
    have step: "copy_dotfiles E False (pr # prs) st = copy_dotfiles E False prs st1"
      using Inr by simp
    show ?thesis
      using Cons.IH [of st1] inv Cons.prems(3) unfolding step by simp
  qed
qed

lemma sorted_list_of_two:
  fixes a b :: string
  assumes "a \<noteq> b"
  shows "sorted_list_of_set {a, b} = (if a < b then [a, b] else [b, a])"
  using assms by (auto simp: sorted_list_of_set_insert)

text \<open>
  C6, as the code has it. What the loop adds to the set for a \<open>PermissionError\<close> is not
  the failing path but what \<open>find_path_for_permission_error_reporting\<close> reports for it.
  A batch outside a dry run starts with an empty set. If in its trace exactly two calls
  of \<open>copy\<close> raised \<open>PermissionError\<close>, on \<open>p1\<close> and \<open>p2\<close>, whose reported paths are
  distinct, and no exception occurred that the loop does not absorb, then the loop
  completes, the set holds exactly the two reported paths, and the report at the end of
  the batch prints the number 2 followed by the two reported paths in lexicographic
  order (after the notice about manual resolution, when the error count is not 0). When
  the batch is the one \<open>reinstall_dots_sb\<close> builds from the configuration, the trace of
  \<open>reinstall_dots_sb\<close> is the trace of the loop followed by this report, and the run
  completes.
\<close>

theorem two_permission_errors_reported_sorted:
  assumes "st0 = \<lparr>world = w1, trace = [Print (Section_header ''REINSTALLING DOTFILES'')],
                  reinstallation_error_count = 0, files_with_permission_errors = {}\<rparr>"
    and "permission_failures (result_trace (copy_dotfiles E False prs st0)) = [p1, p2]"
    and "propagated (result_trace (copy_dotfiles E False prs st0)) = []"
    and "find_path_for_permission_error_reporting E p1
           \<noteq> find_path_for_permission_error_reporting E p2"
  shows "\<exists>st. copy_dotfiles E False prs st0 = Inr st
           \<and> files_with_permission_errors st =
               {find_path_for_permission_error_reporting E p1,
                find_path_for_permission_error_reporting E p2}
           \<and> card (files_with_permission_errors st) = 2
           \<and> end_of_batch st =
               (if reinstallation_error_count st \<noteq> 0
                then [Print (Red_bold
                        (CHR 0x0A # ''Some errors which require manual resolution detected.''))]
                else [])
               @ [Print (Permission_errors_detected 2),
                  Print (List_pretty
                    (if find_path_for_permission_error_reporting E p1
                          < find_path_for_permission_error_reporting E p2
                     then [find_path_for_permission_error_reporting E p1,
                           find_path_for_permission_error_reporting E p2]
                     else [find_path_for_permission_error_reporting E p2,
                           find_path_for_permission_error_reporting E p1]))]
               @ [Print (Section_header ''DOTFILE REINSTALLATION COMPLETED'')]
           \<and> (\<forall>w. \<not> exit_if_dir_is_empty E w dots_path ''dotfile'' \<longrightarrow>
                  collect_dotfiles E dots_path (dotfiles (get_config E w)) ([], w)
                    = (sources, w1) \<longrightarrow>
                  prs = map (resolve_pair dots_path home_path) sources \<longrightarrow>
                  reinstall_dots_sb E dots_path home_path False w =
                    Inr \<lparr>world = world st,
                         trace = trace st
                           @ (if reinstallation_error_count st \<noteq> 0
                              then [Print (Red_bold
                                (CHR 0x0A
                                   # ''Some errors which require manual resolution detected.''))]
                              else [])
                           @ [Print (Permission_errors_detected 2),
                              Print (List_pretty
                                (if find_path_for_permission_error_reporting E p1
                                      < find_path_for_permission_error_reporting E p2
                                 then [find_path_for_permission_error_reporting E p1,
                                       find_path_for_permission_error_reporting E p2]
                                 else [find_path_for_permission_error_reporting E p2,
                                       find_path_for_permission_error_reporting E p1]))]
                           @ [Print (Section_header ''DOTFILE REINSTALLATION COMPLETED'')]\<rparr>)"
proof -
  have i1: "files_with_permission_errors st0 =
      find_path_for_permission_error_reporting E ` set (permission_failures (trace st0))"
    and i2: "propagated (trace st0) = []"
    using assms(1) by simp_all
  obtain st where run: "copy_dotfiles E False prs st0 = Inr st"
    and files: "files_with_permission_errors st =
      find_path_for_permission_error_reporting E ` set (permission_failures (trace st))"
    using copy_dotfiles_invariant [OF i1 i2 assms(3)] by blast
  have "permission_failures (trace st) = [p1, p2]"
    using assms(2) run by (simp add: result_trace_def)
  then have set2: "files_with_permission_errors st =
      {find_path_for_permission_error_reporting E p1,
       find_path_for_permission_error_reporting E p2}"
    using files by simp
  have card2: "card (files_with_permission_errors st) = 2"
    using set2 assms(4) by simp
  have report: "end_of_batch st =
               (if reinstallation_error_count st \<noteq> 0
                then [Print (Red_bold
                        (CHR 0x0A # ''Some errors which require manual resolution detected.''))]
                else [])
               @ [Print (Permission_errors_detected 2),
                  Print (List_pretty
                    (if find_path_for_permission_error_reporting E p1
                          < find_path_for_permission_error_reporting E p2
                     then [find_path_for_permission_error_reporting E p1,
                           find_path_for_permission_error_reporting E p2]
                     else [find_path_for_permission_error_reporting E p2,
                           find_path_for_permission_error_reporting E p1]))]
               @ [Print (Section_header ''DOTFILE REINSTALLATION COMPLETED'')]"
    unfolding end_of_batch_def Let_def card2
    using sorted_list_of_two [OF assms(4)] set2 by simp
  have entry: "\<forall>w. \<not> exit_if_dir_is_empty E w dots_path ''dotfile'' \<longrightarrow>
                  collect_dotfiles E dots_path (dotfiles (get_config E w)) ([], w)
                    = (sources, w1) \<longrightarrow>
                  prs = map (resolve_pair dots_path home_path) sources \<longrightarrow>
                  reinstall_dots_sb E dots_path home_path False w =
                    Inr \<lparr>world = world st, trace = trace st @ end_of_batch st\<rparr>"
  proof (intro allI impI)
    fix w
    assume ne: "\<not> exit_if_dir_is_empty E w dots_path ''dotfile''"
      and c: "collect_dotfiles E dots_path (dotfiles (get_config E w)) ([], w) = (sources, w1)"
      and p: "prs = map (resolve_pair dots_path home_path) sources"
    have "copy_dotfiles E False (map (resolve_pair dots_path home_path) sources)
        \<lparr>world = w1, trace = [Print (Section_header ''REINSTALLING DOTFILES'')],
         reinstallation_error_count = 0, files_with_permission_errors = {}\<rparr> = Inr st"
      using run assms(1) p by simp
    then show "reinstall_dots_sb E dots_path home_path False w =
        Inr \<lparr>world = world st, trace = trace st @ end_of_batch st\<rparr>"
      using ne c by (simp add: reinstall_dots_sb_def)
  qed
  show ?thesis
    using run set2 card2 report entry [unfolded report] by blast
qed

theorem two_permission_errors_reported_sorted_witness:
  "permission_failures (result_trace (copy_dotfiles
       (demo_env [''/backup/.vimrc'', ''/backup/.zshrc''] []
          [''/home/u/.vimrc'', ''/home/u/.zshrc''] [])
       False
       [(Path ''/backup/.vimrc'', Path ''/home/u/.vimrc''),
        (Path ''/backup/.zshrc'', Path ''/home/u/.zshrc'')]
       \<lparr>world = (), trace = [Print (Section_header ''REINSTALLING DOTFILES'')],
        reinstallation_error_count = 0, files_with_permission_errors = {}\<rparr>))
     = [''/home/u/.vimrc'', ''/home/u/.zshrc'']
   \<and> ''/home/u/.vimrc'' \<noteq> ''/home/u/.zshrc''
   \<and> reinstall_dots_sb
        (demo_env [''/backup/.vimrc'', ''/backup/.zshrc''] []
           [''/home/u/.vimrc'', ''/home/u/.zshrc''] [])
        ''/backup'' ''/home/u'' False ()
       = Inr \<lparr>world = (),
              trace = [Print (Section_header ''REINSTALLING DOTFILES''),
                       Safe_mkdir ''/home/u'' None,
                       Copy ''/backup/.vimrc'' ''/home/u/.vimrc''
                         (Some (PermissionError ''/home/u/.vimrc'')),
                       Safe_mkdir ''/home/u'' None,
                       Copy ''/backup/.zshrc'' ''/home/u/.zshrc''
                         (Some (PermissionError ''/home/u/.zshrc'')),
                       Print (Permission_errors_detected 2),
                       Print (List_pretty [''/home/u/.vimrc'', ''/home/u/.zshrc'']),
                       Print (Section_header ''DOTFILE REINSTALLATION COMPLETED'')]\<rparr>"
proof -
  let ?E = "demo_env [''/backup/.vimrc'', ''/backup/.zshrc''] []
          [''/home/u/.vimrc'', ''/home/u/.zshrc''] []"
  let ?prs = "[(Path ''/backup/.vimrc'', Path ''/home/u/.vimrc''),
        (Path ''/backup/.zshrc'', Path ''/home/u/.zshrc'')]"
  let ?init = "\<lparr>world = (), trace = [Print (Section_header ''REINSTALLING DOTFILES'')],
        reinstallation_error_count = 0, files_with_permission_errors = {}\<rparr> :: unit dots_state"
  let ?fin = "\<lparr>world = (),
           trace = [Print (Section_header ''REINSTALLING DOTFILES''),
                    Safe_mkdir ''/home/u'' None,
                    Copy ''/backup/.vimrc'' ''/home/u/.vimrc''
                      (Some (PermissionError ''/home/u/.vimrc'')),
                    Safe_mkdir ''/home/u'' None,
                    Copy ''/backup/.zshrc'' ''/home/u/.zshrc''
                      (Some (PermissionError ''/home/u/.zshrc''))],
           reinstallation_error_count = 0,
           files_with_permission_errors = {''/home/u/.zshrc'', ''/home/u/.vimrc''}\<rparr>
           :: unit dots_state"
  have run: "copy_dotfiles ?E False ?prs ?init = Inr ?fin"
    by (simp add: copy_dotfile_def demo_paths demo_env_def emit_def)
  have h2: "permission_failures (result_trace (copy_dotfiles ?E False ?prs ?init))
      = [''/home/u/.vimrc'', ''/home/u/.zshrc'']"
    and h3: "propagated (result_trace (copy_dotfiles ?E False ?prs ?init)) = []"
    unfolding run by (simp_all add: result_trace_def)
  have h4: "find_path_for_permission_error_reporting ?E ''/home/u/.vimrc''
      \<noteq> find_path_for_permission_error_reporting ?E ''/home/u/.zshrc''"
    by (simp add: demo_env_def)
  have F: "find_path_for_permission_error_reporting ?E = (\<lambda>p. p)"
    by (simp add: demo_env_def)
  have lt: "''/home/u/.vimrc'' < ''/home/u/.zshrc''"
    by (simp add: less_char_def)
  have noexit: "\<not> exit_if_dir_is_empty ?E () ''/backup'' ''dotfile''"
    by (simp add: demo_env_def)
  have col: "collect_dotfiles ?E ''/backup'' (dotfiles (get_config ?E ())) ([], ())
      = ([''/backup/.vimrc'', ''/backup/.zshrc''], ())"
    by (simp add: demo_env_def demo_config_def real_path_dotfile_def encode_identifier_def
          py_join_def startswith_def)
  have prs: "?prs = map (resolve_pair ''/backup'' ''/home/u'')
      [''/backup/.vimrc'', ''/backup/.zshrc'']"
    by (simp add: resolve_pair_def dest_of_def py_join_def startswith_def str_replace_def
          Path_def splitroot_def)
  note T = two_permission_errors_reported_sorted [OF refl h2 h3 h4,
      of "''/backup''" "[''/backup/.vimrc'', ''/backup/.zshrc'']" "''/home/u''",
      unfolded F run]
  from T obtain st where st: "Inr ?fin = (Inr st :: (py_exn \<times> unit io) + unit dots_state)"
    and entry: "\<forall>w. \<not> exit_if_dir_is_empty ?E w ''/backup'' ''dotfile'' \<longrightarrow>
        collect_dotfiles ?E ''/backup'' (dotfiles (get_config ?E w)) ([], w)
          = ([''/backup/.vimrc'', ''/backup/.zshrc''], ()) \<longrightarrow>
        ?prs = map (resolve_pair ''/backup'' ''/home/u'')
                 [''/backup/.vimrc'', ''/backup/.zshrc''] \<longrightarrow>
        reinstall_dots_sb ?E ''/backup'' ''/home/u'' False w =
          Inr \<lparr>world = world st,
               trace = trace st
                 @ (if reinstallation_error_count st \<noteq> 0
                    then [Print (Red_bold
                      (CHR 0x0A # ''Some errors which require manual resolution detected.''))]
                    else [])
                 @ [Print (Permission_errors_detected 2),
                    Print (List_pretty
                      (if ''/home/u/.vimrc'' < ''/home/u/.zshrc''
                       then [''/home/u/.vimrc'', ''/home/u/.zshrc'']
                       else [''/home/u/.zshrc'', ''/home/u/.vimrc'']))]
                 @ [Print (Section_header ''DOTFILE REINSTALLATION COMPLETED'')]\<rparr>"
    by blast
  have st': "st = ?fin" using st by simp
  have w3: "reinstall_dots_sb ?E ''/backup'' ''/home/u'' False ()
       = Inr \<lparr>world = (),
              trace = [Print (Section_header ''REINSTALLING DOTFILES''),
                       Safe_mkdir ''/home/u'' None,
                       Copy ''/backup/.vimrc'' ''/home/u/.vimrc''
                         (Some (PermissionError ''/home/u/.vimrc'')),
                       Safe_mkdir ''/home/u'' None,
                       Copy ''/backup/.zshrc'' ''/home/u/.zshrc''
                         (Some (PermissionError ''/home/u/.zshrc'')),
                       Print (Permission_errors_detected 2),
                       Print (List_pretty [''/home/u/.vimrc'', ''/home/u/.zshrc'']),
                       Print (Section_header ''DOTFILE REINSTALLATION COMPLETED'')]\<rparr>"
    using entry [rule_format, OF noexit col prs] unfolding st' by (simp add: lt)
  show ?thesis
    using h2 w3 by simp
qed

theorem two_permission_errors_counterexample:
  "permission_failures
     (result_trace (reinstall_dots_sb demo_git_env ''/backup'' ''/home/u'' False ()))
     = [''/home/u/r/.git/a'', ''/home/u/r/.git/b'']
   \<and> ''/home/u/r/.git/a'' \<noteq> ''/home/u/r/.git/b''
   \<and> reinstall_dots_sb demo_git_env ''/backup'' ''/home/u'' False ()
       = Inr \<lparr>world = (),
              trace = [Print (Section_header ''REINSTALLING DOTFILES''),
                       Safe_mkdir ''/home/u/r/.git'' None,
                       Copy ''/backup/r/.git/a'' ''/home/u/r/.git/a''
                         (Some (PermissionError ''/home/u/r/.git/a'')),
                       Safe_mkdir ''/home/u/r/.git'' None,
                       Copy ''/backup/r/.git/b'' ''/home/u/r/.git/b''
                         (Some (PermissionError ''/home/u/r/.git/b'')),
                       Print (Permission_errors_detected 1),
                       Print (List_pretty [''/home/u/r/.git'']),
                       Print (Section_header ''DOTFILE REINSTALLATION COMPLETED'')]\<rparr>"
proof -
  have col: "collect_dotfiles demo_git_env ''/backup''
      (dotfiles (get_config demo_git_env ())) ([], ())
      = ([''/backup/r/.git/a'', ''/backup/r/.git/b''], ())"
    by (simp add: demo_git_env_def demo_env_def real_path_dotfile_def encode_identifier_def
          py_join_def startswith_def)
  have prs: "resolve_pair ''/backup'' ''/home/u'' ''/backup/r/.git/a''
      = (Path ''/backup/r/.git/a'', Path ''/home/u//r/.git/a'')"
    "resolve_pair ''/backup'' ''/home/u'' ''/backup/r/.git/b''
      = (Path ''/backup/r/.git/b'', Path ''/home/u//r/.git/b'')"
    by (simp_all add: resolve_pair_def dest_of_def py_join_def startswith_def str_replace_def)
  have paths:
    "str_path (Path ''/backup/r/.git/a'') = ''/backup/r/.git/a''"
    "str_path (Path ''/backup/r/.git/b'') = ''/backup/r/.git/b''"
    "str_path (Path ''/home/u//r/.git/a'') = ''/home/u/r/.git/a''"
    "str_path (Path ''/home/u//r/.git/b'') = ''/home/u/r/.git/b''"
    "str_path (parent (Path ''/home/u//r/.git/a'')) = ''/home/u/r/.git''"
    "str_path (parent (Path ''/home/u//r/.git/b'')) = ''/home/u/r/.git''"
    by (simp_all add: Path_def splitroot_def str_path_def parent_def)
  have rep: "report_git_dir ''/home/u/r/.git/a'' = ''/home/u/r/.git''"
    "report_git_dir ''/home/u/r/.git/b'' = ''/home/u/r/.git''"
    by (simp_all add: report_git_dir_def startswith_def)
  have loop: "copy_dotfiles demo_git_env False
      [(Path ''/backup/r/.git/a'', Path ''/home/u//r/.git/a''),
       (Path ''/backup/r/.git/b'', Path ''/home/u//r/.git/b'')]
      \<lparr>world = (), trace = [Print (Section_header ''REINSTALLING DOTFILES'')],
       reinstallation_error_count = 0, files_with_permission_errors = {}\<rparr>
      = Inr \<lparr>world = (),
             trace = [Print (Section_header ''REINSTALLING DOTFILES''),
                      Safe_mkdir ''/home/u/r/.git'' None,
                      Copy ''/backup/r/.git/a'' ''/home/u/r/.git/a''
                        (Some (PermissionError ''/home/u/r/.git/a'')),
                      Safe_mkdir ''/home/u/r/.git'' None,
                      Copy ''/backup/r/.git/b'' ''/home/u/r/.git/b''
                        (Some (PermissionError ''/home/u/r/.git/b''))],
             reinstallation_error_count = 0,
             files_with_permission_errors = {''/home/u/r/.git''}\<rparr>"
    by (simp add: copy_dotfile_def paths demo_git_env_def demo_env_def emit_def rep)
  have noexit: "\<not> exit_if_dir_is_empty demo_git_env () ''/backup'' ''dotfile''"
    by (simp add: demo_git_env_def demo_env_def)
  have run: "reinstall_dots_sb demo_git_env ''/backup'' ''/home/u'' False ()
       = Inr \<lparr>world = (),
              trace = [Print (Section_header ''REINSTALLING DOTFILES''),
                       Safe_mkdir ''/home/u/r/.git'' None,
                       Copy ''/backup/r/.git/a'' ''/home/u/r/.git/a''
                         (Some (PermissionError ''/home/u/r/.git/a'')),
                       Safe_mkdir ''/home/u/r/.git'' None,
                       Copy ''/backup/r/.git/b'' ''/home/u/r/.git/b''
                         (Some (PermissionError ''/home/u/r/.git/b'')),
                       Print (Permission_errors_detected 1),
                       Print (List_pretty [''/home/u/r/.git'']),
                       Print (Section_header ''DOTFILE REINSTALLATION COMPLETED'')]\<rparr>"
    using noexit
    by (simp add: reinstall_dots_sb_def col prs loop end_of_batch_def
          del: copy_dotfiles.simps)
  show ?thesis
    unfolding run by (simp add: result_trace_def)
qed

section \<open>Package managers\<close>

lemma replace_from_char:
  "replace_from [a] [b] s = map (\<lambda>c. if c = a then b else c) s"
  by (induction s) (simp_all add: startswith_def)

lemma split_chr_first:
  "(case split_chr sep s of [] \<Rightarrow> [] | w # ws \<Rightarrow> w) = takeWhile (\<lambda>c. c \<noteq> sep) s"
  by (induction s) (simp_all split: list.splits)

lemma known_managers_plain:
  "m \<in> set known_managers \<Longrightarrow> CHR '' '' \<notin> set m \<and> CHR ''-'' \<notin> set m"
  by (auto simp: known_managers_def)

lemma manager_of_known: "manager_of file \<in> set known_managers \<longleftrightarrow> split0 file \<in> set known_managers"
proof -
  let ?f = "\<lambda>c. if c = CHR ''-'' then CHR '' '' else c"
  have m: "manager_of file = map ?f (split0 file)"
    by (simp add: manager_of_def str_replace_def replace_from_char)
  have same: "CHR ''-'' \<notin> set (split0 file) \<Longrightarrow> map ?f (split0 file) = split0 file"
    by (rule map_idI) auto
  show ?thesis
  proof
    assume k: "manager_of file \<in> set known_managers"
    have "CHR ''-'' \<notin> set (split0 file)"
    proof
      assume "CHR ''-'' \<in> set (split0 file)"
      then have "CHR '' '' \<in> set (manager_of file)"
        unfolding m by force
      then show False using known_managers_plain [OF k] by simp
    qed
    then show "split0 file \<in> set known_managers"
      using k m same by simp
  next
    assume k: "split0 file \<in> set known_managers"
    then have "CHR ''-'' \<notin> set (split0 file)"
      using known_managers_plain by blast
    then show "manager_of file \<in> set known_managers"
      using k m same by simp
  qed
qed

lemma find_package_mgrs_eq:
  "find_package_mgrs files S = S \<union> (split0 ` set files \<inter> set known_managers)"
  by (induction files arbitrary: S) (auto simp: manager_of_known)

text \<open>
  C7, as the code has it. The piece of the file name that is tested and recorded is the
  one before the first \<open>_\<close>; a \<open>-\<close> does not end it. Replacing \<open>-\<close> by a space for the test
  never changes the outcome, so the managers found are the pieces that are themselves
  one of the eight names. For any other name the second loop issues nothing. With the
  files \<open>brew_list.txt\<close> and \<open>unknownmgr_list.txt\<close> the run finds \<open>brew\<close> only, runs its one
  command once and ends without an error.
\<close>

theorem package_managers_recognised:
  "split0 file = takeWhile (\<lambda>c. c \<noteq> CHR ''_'') file
   \<and> (manager_of file \<in> set known_managers \<longleftrightarrow> split0 file \<in> set known_managers)
   \<and> find_package_mgrs files {} = split0 ` set files \<inter> set known_managers
   \<and> (pm \<notin> set known_managers \<longrightarrow> reinstall_package E packages_path dry_run pm st = Inr st)
   \<and> (listdir E w packages_path = [''brew_list.txt'', ''unknownmgr_list.txt''] \<longrightarrow>
        \<not> exit_if_dir_is_empty E w packages_path ''package'' \<longrightarrow>
        set_iteration E {''brew''} = [''brew''] \<longrightarrow>
        reinstall_packages_sb E packages_path False w =
          Inr \<lparr>world = snd (run_cmd E w
                   (''brew bundle install --no-lock --file '' @ packages_path @ ''/brew_list.txt'')),
               trace = [Print (Section_header ''REINSTALLING PACKAGES''),
                        Print (Blue_bold ''Package Manager Backups Found:''),
                        Print (Yellow (CHR 0x09 # ''brew'')),
                        Print Blank_line,
                        Print (Pkg_mgr_reinstall ''brew''),
                        Run_cmd
                          (''brew bundle install --no-lock --file '' @ packages_path
                             @ ''/brew_list.txt'')
                          (fst (run_cmd E w
                             (''brew bundle install --no-lock --file '' @ packages_path
                                @ ''/brew_list.txt''))),
                        Print (Section_header ''PACKAGE REINSTALLATION COMPLETED'')]\<rparr>)"
proof -
  have a: "split0 file = takeWhile (\<lambda>c. c \<noteq> CHR ''_'') file"
    by (simp add: split0_def split_chr_first)
  have c: "find_package_mgrs files {} = split0 ` set files \<inter> set known_managers"
    by (simp add: find_package_mgrs_eq)
  have d: "pm \<notin> set known_managers \<longrightarrow> reinstall_package E packages_path dry_run pm st = Inr st"
    by (simp add: reinstall_package_def known_managers_def)
  have found: "find_package_mgrs [''brew_list.txt'', ''unknownmgr_list.txt''] {} = {''brew''}"
    unfolding find_package_mgrs_eq by (simp add: split0_def known_managers_def)
  have e: "listdir E w packages_path = [''brew_list.txt'', ''unknownmgr_list.txt''] \<longrightarrow>
        \<not> exit_if_dir_is_empty E w packages_path ''package'' \<longrightarrow>
        set_iteration E {''brew''} = [''brew''] \<longrightarrow>
        reinstall_packages_sb E packages_path False w =
          Inr \<lparr>world = snd (run_cmd E w
                   (''brew bundle install --no-lock --file '' @ packages_path @ ''/brew_list.txt'')),
               trace = [Print (Section_header ''REINSTALLING PACKAGES''),
                        Print (Blue_bold ''Package Manager Backups Found:''),
                        Print (Yellow (CHR 0x09 # ''brew'')),
                        Print Blank_line,
                        Print (Pkg_mgr_reinstall ''brew''),
                        Run_cmd
                          (''brew bundle install --no-lock --file '' @ packages_path
                             @ ''/brew_list.txt'')
                          (fst (run_cmd E w
                             (''brew bundle install --no-lock --file '' @ packages_path
                                @ ''/brew_list.txt''))),
                        Print (Section_header ''PACKAGE REINSTALLATION COMPLETED'')]\<rparr>"
    by (simp add: reinstall_packages_sb_def found reinstall_package_def
          run_cmd_if_no_dry_run_def emit_def del: find_package_mgrs.simps split: prod.splits)
  show ?thesis
    using a manager_of_known c d e by blast
qed

theorem package_managers_recognised_witness:
  "split0 ''brew_list.txt'' = ''brew''
   \<and> manager_of ''brew_list.txt'' \<in> set known_managers
   \<and> find_package_mgrs [''brew_list.txt'', ''unknownmgr_list.txt''] {} = {''brew''}
   \<and> ''unknownmgr'' \<notin> set known_managers
   \<and> reinstall_package (demo_env [] [] [] []) ''/backup/packages'' False ''unknownmgr''
        \<lparr>world = (), trace = []\<rparr> = Inr \<lparr>world = (), trace = []\<rparr>
   \<and> reinstall_packages_sb (demo_env [] [] [] []) ''/backup/packages'' False () =
       Inr \<lparr>world = (),
            trace = [Print (Section_header ''REINSTALLING PACKAGES''),
                     Print (Blue_bold ''Package Manager Backups Found:''),
                     Print (Yellow (CHR 0x09 # ''brew'')),
                     Print Blank_line,
                     Print (Pkg_mgr_reinstall ''brew''),
                     Run_cmd ''brew bundle install --no-lock --file /backup/packages/brew_list.txt'' 0,
                     Print (Section_header ''PACKAGE REINSTALLATION COMPLETED'')]\<rparr>"
proof -
  let ?E = "demo_env [] [] [] []"
  note T = package_managers_recognised [of "''brew_list.txt''"
      "[''brew_list.txt'', ''unknownmgr_list.txt'']" "''unknownmgr''" ?E "''/backup/packages''"
      False "\<lparr>world = (), trace = []\<rparr>" "()"]
  have h1: "listdir ?E () ''/backup/packages'' = [''brew_list.txt'', ''unknownmgr_list.txt'']"
    and h2: "\<not> exit_if_dir_is_empty ?E () ''/backup/packages'' ''package''"
    and h3: "set_iteration ?E {''brew''} = [''brew'']"
    and rc: "run_cmd ?E () (''brew bundle install --no-lock --file '' @ ''/backup/packages''
               @ ''/brew_list.txt'') = (0, ())"
    by (simp_all add: demo_env_def)
  have h4: "''unknownmgr'' \<notin> set known_managers"
    by (simp add: known_managers_def)
  have w1: "split0 ''brew_list.txt'' = ''brew''"
    using T [THEN conjunct1] by simp
  have u: "split0 ''unknownmgr_list.txt'' = ''unknownmgr''"
    by (simp add: split0_def)
  have w2: "manager_of ''brew_list.txt'' \<in> set known_managers"
    using T [THEN conjunct2, THEN conjunct1] unfolding w1 by (simp add: known_managers_def)
  have w3: "find_package_mgrs [''brew_list.txt'', ''unknownmgr_list.txt''] {} = {''brew''}"
    unfolding T [THEN conjunct2, THEN conjunct2, THEN conjunct1]
    by (simp add: w1 u known_managers_def)
  note w5 = T [THEN conjunct2, THEN conjunct2, THEN conjunct2, THEN conjunct1, rule_format,
      OF h4]
  note w6 = T [THEN conjunct2, THEN conjunct2, THEN conjunct2, THEN conjunct2, rule_format,
      OF h1 h2 h3, unfolded rc fst_conv snd_conv]
  have w6': "reinstall_packages_sb ?E ''/backup/packages'' False () =
       Inr \<lparr>world = (),
            trace = [Print (Section_header ''REINSTALLING PACKAGES''),
                     Print (Blue_bold ''Package Manager Backups Found:''),
                     Print (Yellow (CHR 0x09 # ''brew'')),
                     Print Blank_line,
                     Print (Pkg_mgr_reinstall ''brew''),
                     Run_cmd ''brew bundle install --no-lock --file /backup/packages/brew_list.txt'' 0,
                     Print (Section_header ''PACKAGE REINSTALLATION COMPLETED'')]\<rparr>"
    using w6 by simp
  show ?thesis
    using w1 w2 w3 h4 w5 w6' by blast
qed

theorem leading_token_counterexample:
  "manager_of ''pip-list.txt'' = ''pip list.txt''
   \<and> spec_leading_token ''pip-list.txt'' = ''pip''
   \<and> ''pip'' \<in> set known_managers
   \<and> find_package_mgrs [''pip-list.txt''] {} = {}"
  by (simp add: manager_of_def split0_def str_replace_def startswith_def spec_leading_token_def
        known_managers_def)

section \<open>Rules whose condition fails\<close>

lemma collect_dotfiles_append:
  "collect_dotfiles E dots_path (xs @ ys) a =
     collect_dotfiles E dots_path ys (collect_dotfiles E dots_path xs a)"
  by (induction E dots_path xs a rule: collect_dotfiles.induct) (simp_all split: prod.splits)

lemma collect_dotfiles_get_config:
  "collect_dotfiles (E\<lparr>get_config := g\<rparr>) dots_path xs a = collect_dotfiles E dots_path xs a"
  by (induction E dots_path xs a rule: collect_dotfiles.induct) (simp_all split: prod.splits)

lemma copy_dotfile_get_config:
  "copy_dotfile (E\<lparr>get_config := g\<rparr>) dry_run pr st = copy_dotfile E dry_run pr st"
  by (cases pr) (simp add: copy_dotfile_def Let_def split: prod.splits option.splits py_exn.splits)

lemma copy_dotfiles_get_config:
  "copy_dotfiles (E\<lparr>get_config := g\<rparr>) dry_run prs st = copy_dotfiles E dry_run prs st"
  by (induction prs arbitrary: st) (simp_all add: copy_dotfile_get_config split: sum.splits)

text \<open>
  C8. Let the rules before a rule have been processed, giving the sources \<open>acc1\<close> and the
  world \<open>w1\<close>, and let the rule's condition evaluate to false there. Then the first loop
  goes on with the rules after it from the same sources: the rule is neither encoded
  nor looked up nor expanded. If the evaluator left the world as it was, the sources are
  those of the configuration without the rule, and the whole of \<open>reinstall_dots_sb\<close>
  (pairs, copies, trace and result) is what it is for the configuration without the
  rule.
\<close>

theorem false_condition_rule_is_skipped:
  assumes "collect_dotfiles E dots_path pre a = (acc1, w1)"
    and "evaluate_condition E w1
           (case options ''reinstall_condition'' of None \<Rightarrow> [] | Some c \<Rightarrow> c)
           ''reinstall'' ident = (False, w1')"
  shows "collect_dotfiles E dots_path (pre @ (ident, options) # post) a =
           collect_dotfiles E dots_path post (acc1, w1')
       \<and> (w1' = w1 \<longrightarrow>
            collect_dotfiles E dots_path (pre @ (ident, options) # post) a =
              collect_dotfiles E dots_path (pre @ post) a)
       \<and> (w1' = w1 \<longrightarrow> a = ([], w) \<longrightarrow>
            dotfiles (get_config E w) = pre @ (ident, options) # post \<longrightarrow>
            reinstall_dots_sb E dots_path home_path dry_run w =
              reinstall_dots_sb
                (E\<lparr>get_config := \<lambda>w. (get_config E w)\<lparr>dotfiles := pre @ post\<rparr>\<rparr>)
                dots_path home_path dry_run w)"
proof -
  have skip: "collect_dotfiles E dots_path (pre @ (ident, options) # post) a =
           collect_dotfiles E dots_path post (acc1, w1')"
    using assms by (simp add: collect_dotfiles_append)
  have same: "w1' = w1 \<longrightarrow>
            collect_dotfiles E dots_path (pre @ (ident, options) # post) a =
              collect_dotfiles E dots_path (pre @ post) a"
    using assms(1) skip by (simp add: collect_dotfiles_append)
  have entry: "w1' = w1 \<longrightarrow> a = ([], w) \<longrightarrow>
            dotfiles (get_config E w) = pre @ (ident, options) # post \<longrightarrow>
            reinstall_dots_sb E dots_path home_path dry_run w =
              reinstall_dots_sb
                (E\<lparr>get_config := \<lambda>w. (get_config E w)\<lparr>dotfiles := pre @ post\<rparr>\<rparr>)
                dots_path home_path dry_run w"
  proof (intro impI)
    assume e: "w1' = w1" and a: "a = ([], w)"
      and c: "dotfiles (get_config E w) = pre @ (ident, options) # post"
    have "collect_dotfiles E dots_path (pre @ (ident, options) # post) ([], w) =
        collect_dotfiles E dots_path (pre @ post) ([], w)"
      using same e a by simp
    then show "reinstall_dots_sb E dots_path home_path dry_run w =
              reinstall_dots_sb
                (E\<lparr>get_config := \<lambda>w. (get_config E w)\<lparr>dotfiles := pre @ post\<rparr>\<rparr>)
                dots_path home_path dry_run w"
      by (simp add: reinstall_dots_sb_def c collect_dotfiles_get_config
            copy_dotfiles_get_config)
  qed
  show ?thesis
    using skip same entry by blast
qed

theorem false_condition_rule_is_skipped_witness:
  "collect_dotfiles (demo_env [''/backup/.vimrc'', ''/backup/.zshrc'', ''/backup/:etc/hosts''] [] [] [])
       ''/backup'' [(''.vimrc'', Map.empty)] ([], ()) = ([''/backup/.vimrc''], ())
   \<and> evaluate_condition
        (demo_env [''/backup/.vimrc'', ''/backup/.zshrc'', ''/backup/:etc/hosts''] [] [] []) ()
        ''false'' ''reinstall'' ''/etc/hosts'' = (False, ())
   \<and> collect_dotfiles (demo_env [''/backup/.vimrc'', ''/backup/.zshrc'', ''/backup/:etc/hosts''] [] [] [])
       ''/backup'' (dotfiles demo_config) ([], ())
       = ([''/backup/.vimrc'', ''/backup/.zshrc''], ())
   \<and> reinstall_dots_sb
        (demo_env [''/backup/.vimrc'', ''/backup/.zshrc'', ''/backup/:etc/hosts''] [] [] [])
        ''/backup'' ''/home/u'' False ()
       = reinstall_dots_sb
          ((demo_env [''/backup/.vimrc'', ''/backup/.zshrc'', ''/backup/:etc/hosts''] [] [] [])
             \<lparr>get_config := \<lambda>w. demo_config
                \<lparr>dotfiles := [(''.vimrc'', Map.empty), (''.zshrc'', Map.empty)]\<rparr>\<rparr>)
          ''/backup'' ''/home/u'' False ()"
proof -
  let ?E = "demo_env [''/backup/.vimrc'', ''/backup/.zshrc'', ''/backup/:etc/hosts''] [] [] []"
  let ?opts = "[''reinstall_condition'' \<mapsto> ''false'']"
  have h1: "collect_dotfiles ?E ''/backup'' [(''.vimrc'', Map.empty)] ([], ())
      = ([''/backup/.vimrc''], ())"
    by (simp add: demo_env_def real_path_dotfile_def encode_identifier_def py_join_def
          startswith_def)
  have h2: "evaluate_condition ?E ()
      (case ?opts ''reinstall_condition'' of None \<Rightarrow> [] | Some c \<Rightarrow> c)
      ''reinstall'' ''/etc/hosts'' = (False, ())"
    by (simp add: demo_env_def)
  have h2': "evaluate_condition ?E () ''false'' ''reinstall'' ''/etc/hosts'' = (False, ())"
    using h2 by simp
  note T = false_condition_rule_is_skipped [where options = ?opts
      and post = "[(''.zshrc'', Map.empty)]" and w = "()" and home_path = "''/home/u''"
      and dry_run = False, OF h1 h2]
  have cfg: "dotfiles (get_config ?E ())
      = [(''.vimrc'', Map.empty)] @ (''/etc/hosts'', ?opts) # [(''.zshrc'', Map.empty)]"
    and cfg': "get_config ?E = (\<lambda>w. demo_config)"
    and cfg'': "dotfiles demo_config
      = [(''.vimrc'', Map.empty)] @ (''/etc/hosts'', ?opts) # [(''.zshrc'', Map.empty)]"
    by (simp_all add: demo_env_def demo_config_def)
  have rest: "collect_dotfiles ?E ''/backup'' [(''.zshrc'', Map.empty)] ([''/backup/.vimrc''], ())
      = ([''/backup/.vimrc'', ''/backup/.zshrc''], ())"
    by (simp add: demo_env_def real_path_dotfile_def encode_identifier_def py_join_def
          startswith_def)
  have w3: "collect_dotfiles ?E ''/backup'' (dotfiles demo_config) ([], ())
      = ([''/backup/.vimrc'', ''/backup/.zshrc''], ())"
    unfolding cfg'' T [THEN conjunct1] rest ..
  note w4 = T [THEN conjunct2, THEN conjunct2, rule_format, OF refl refl cfg, unfolded cfg']
  have w4': "reinstall_dots_sb ?E ''/backup'' ''/home/u'' False ()
       = reinstall_dots_sb
          (?E\<lparr>get_config := \<lambda>w. demo_config
                \<lparr>dotfiles := [(''.vimrc'', Map.empty), (''.zshrc'', Map.empty)]\<rparr>\<rparr>)
          ''/backup'' ''/home/u'' False ()"
    using w4 by simp
  show ?thesis
    using h1 h2' w3 w4' by blast
qed

section \<open>Quoted paths in the font and config loops\<close>

lemma length_replace_from_char:
  "new \<noteq> [] \<Longrightarrow> length s \<le> length (replace_from [a] new s)"
proof (induction s)
  case Nil
  then show ?case by simp
next
  case (Cons c s)
  obtain n ns where "new = n # ns"
    using Cons.prems by (cases new) simp_all
  then show ?case
    using Cons.IH [OF Cons.prems] by (simp add: startswith_def)
qed

lemma quote_unsafe:
  assumes "\<not> list_all safe_char s"
  shows "quote s = CHR 0x27
           # str_replace s [CHR 0x27] [CHR 0x27, CHR 0x22, CHR 0x27, CHR 0x22, CHR 0x27]
           @ [CHR 0x27]"
    and "quote s \<noteq> s"
proof -
  have ne: "s \<noteq> []" using assms by auto
  show q: "quote s = CHR 0x27
           # str_replace s [CHR 0x27] [CHR 0x27, CHR 0x22, CHR 0x27, CHR 0x22, CHR 0x27]
           @ [CHR 0x27]"
    using assms ne by (simp add: quote_def)
  have "length s \<le> length (str_replace s [CHR 0x27]
      [CHR 0x27, CHR 0x22, CHR 0x27, CHR 0x22, CHR 0x27])"
    by (simp add: str_replace_def length_replace_from_char)
  then have "length s < length (quote s)"
    unfolding q by simp
  then show "quote s \<noteq> s" by auto
qed

text \<open>
  C9. Outside a dry run the body of the font loop calls \<open>copyfile\<close> with \<open>quote font\<close> as
  source and with \<open>quote dest_path\<close> as destination, where \<open>dest_path\<close> is itself already
  the quoted join of the fonts directory and the file name. When the font path has a
  character that \<open>quote\<close> wraps, the source handed to \<open>copyfile\<close> is the path inside single
  quotes, a string different from the path.
\<close>

theorem font_copy_gets_quoted_paths:
  "result_trace (reinstall_font E False font st) =
     trace st @ [Copyfile (quote font)
                   (quote (quote (py_join (get_fonts_dir E (world st))
                                    (last (split_chr CHR ''/'' font)))))
                   (fst (copyfile E (world st) (quote font)
                      (quote (quote (py_join (get_fonts_dir E (world st))
                                       (last (split_chr CHR ''/'' font)))))))]
   \<and> (\<not> list_all safe_char font \<longrightarrow>
        quote font \<noteq> font
        \<and> quote font = CHR 0x27
            # str_replace font [CHR 0x27] [CHR 0x27, CHR 0x22, CHR 0x27, CHR 0x22, CHR 0x27]
            @ [CHR 0x27])"
proof -
  have "result_trace (reinstall_font E False font st) =
     trace st @ [Copyfile (quote font)
                   (quote (quote (py_join (get_fonts_dir E (world st))
                                    (last (split_chr CHR ''/'' font)))))
                   (fst (copyfile E (world st) (quote font)
                      (quote (quote (py_join (get_fonts_dir E (world st))
                                       (last (split_chr CHR ''/'' font)))))))]"
    by (simp add: reinstall_font_def result_trace_def emit_def Let_def
          split: prod.splits option.splits)
  then show ?thesis
    using quote_unsafe [of font] by blast
qed

theorem font_copy_gets_quoted_paths_witness:
  "\<not> list_all safe_char ''/backup/fonts/My Font.ttf''
   \<and> quote ''/backup/fonts/My Font.ttf'' = CHR 0x27 # ''/backup/fonts/My Font.ttf'' @ [CHR 0x27]
   \<and> quote ''/backup/fonts/My Font.ttf'' \<noteq> ''/backup/fonts/My Font.ttf''
   \<and> result_trace (reinstall_font (demo_env [''/backup/fonts/My Font.ttf''] [] [] []) False
         ''/backup/fonts/My Font.ttf'' \<lparr>world = (), trace = []\<rparr>)
       = [Copyfile (CHR 0x27 # ''/backup/fonts/My Font.ttf'' @ [CHR 0x27])
            (quote (CHR 0x27 # ''/home/u/.fonts/My Font.ttf'' @ [CHR 0x27]))
            (Some (FileNotFoundError (CHR 0x27 # ''/backup/fonts/My Font.ttf'' @ [CHR 0x27])))]"
proof -
  let ?E = "demo_env [''/backup/fonts/My Font.ttf''] [] [] []"
  have h: "\<not> list_all safe_char ''/backup/fonts/My Font.ttf''"
    by (simp add: safe_char_def)
  note T = font_copy_gets_quoted_paths [of ?E "''/backup/fonts/My Font.ttf''"
      "\<lparr>world = (), trace = []\<rparr>"]
  note q = T [THEN conjunct2, rule_format, OF h]
  have r: "str_replace ''/backup/fonts/My Font.ttf'' [CHR 0x27]
      [CHR 0x27, CHR 0x22, CHR 0x27, CHR 0x22, CHR 0x27] = ''/backup/fonts/My Font.ttf''"
    by (simp add: str_replace_def startswith_def)
  have q1: "quote ''/backup/fonts/My Font.ttf'' = CHR 0x27 # ''/backup/fonts/My Font.ttf'' @ [CHR 0x27]"
    using q [THEN conjunct2] unfolding r .
  have d: "quote (py_join (get_fonts_dir ?E ()) (last (split_chr CHR ''/'' ''/backup/fonts/My Font.ttf'')))
      = CHR 0x27 # ''/home/u/.fonts/My Font.ttf'' @ [CHR 0x27]"
    by (simp add: demo_env_def py_join_def startswith_def quote_def safe_char_def str_replace_def)
  have c: "fst (copyfile ?E () (CHR 0x27 # ''/backup/fonts/My Font.ttf'' @ [CHR 0x27])
      (quote (CHR 0x27 # ''/home/u/.fonts/My Font.ttf'' @ [CHR 0x27])))
      = Some (FileNotFoundError (CHR 0x27 # ''/backup/fonts/My Font.ttf'' @ [CHR 0x27]))"
    by (simp add: demo_env_def)
  have t: "result_trace (reinstall_font ?E False ''/backup/fonts/My Font.ttf''
         \<lparr>world = (), trace = []\<rparr>)
       = [Copyfile (CHR 0x27 # ''/backup/fonts/My Font.ttf'' @ [CHR 0x27])
            (quote (CHR 0x27 # ''/home/u/.fonts/My Font.ttf'' @ [CHR 0x27]))
            (Some (FileNotFoundError (CHR 0x27 # ''/backup/fonts/My Font.ttf'' @ [CHR 0x27])))]"
    using T [THEN conjunct1] unfolding q1 by (simp only: io.simps d c append_Nil)
  show ?thesis
    using h q1 q [THEN conjunct1] t by blast
qed

text \<open>
  C10, as the code has it. Outside a dry run the two tests of the config loop are made
  on the quoted source. When the joined source path has a character that \<open>quote\<close> wraps,
  the quoted source is another string than the path, so what the path itself is on the
  file system plays no part: whenever the quoted string names neither a directory nor a
  file, the entry is passed over with the state unchanged (no copy, no exception,
  nothing printed or recorded).
\<close>

theorem quoted_config_source_is_skipped:
  assumes "\<not> list_all safe_char (py_join configs_path backup_loc)"
    and "\<not> isdir E (world st) (quote (py_join configs_path backup_loc))"
    and "\<not> isfile E (world st) (quote (py_join configs_path backup_loc))"
  shows "quote (py_join configs_path backup_loc) \<noteq> py_join configs_path backup_loc
       \<and> reinstall_config E configs_path False (dest_path, backup_loc) st = Inr st
       \<and> reinstall_configs E configs_path False ((dest_path, backup_loc) # entries) st =
           reinstall_configs E configs_path False entries st"
proof -
  have step: "reinstall_config E configs_path False (dest_path, backup_loc) st = Inr st"
    using assms(2,3) by (simp add: reinstall_config_def)
  then show ?thesis
    using quote_unsafe(2) [OF assms(1)] by simp
qed

theorem quoted_config_source_is_skipped_witness:
  "\<not> list_all safe_char (py_join ''/backup/configs'' ''my app'')
   \<and> isdir (demo_env [] [''/backup/configs/my app''] [] []) () (py_join ''/backup/configs'' ''my app'')
   \<and> \<not> isdir (demo_env [] [''/backup/configs/my app''] [] []) ()
         (quote (py_join ''/backup/configs'' ''my app''))
   \<and> \<not> isfile (demo_env [] [''/backup/configs/my app''] [] []) ()
         (quote (py_join ''/backup/configs'' ''my app''))
   \<and> reinstall_configs (demo_env [] [''/backup/configs/my app''] [] []) ''/backup/configs'' False
         [(''/home/u/.config/my app'', ''my app'')] \<lparr>world = (), trace = []\<rparr>
       = Inr \<lparr>world = (), trace = []\<rparr>"
proof -
  let ?E = "demo_env [] [''/backup/configs/my app''] [] []"
  have j: "py_join ''/backup/configs'' ''my app'' = ''/backup/configs/my app''"
    by (simp add: py_join_def startswith_def)
  have h1: "\<not> list_all safe_char (py_join ''/backup/configs'' ''my app'')"
    unfolding j by (simp add: safe_char_def)
  have q: "quote ''/backup/configs/my app'' = CHR 0x27 # ''/backup/configs/my app'' @ [CHR 0x27]"
    by (simp add: quote_def safe_char_def str_replace_def startswith_def)
  have real: "isdir ?E () (py_join ''/backup/configs'' ''my app'')"
    unfolding j by (simp add: demo_env_def)
  have h2: "\<not> isdir ?E (world \<lparr>world = (), trace = []\<rparr>)
      (quote (py_join ''/backup/configs'' ''my app''))"
    and h3: "\<not> isfile ?E (world \<lparr>world = (), trace = []\<rparr>)
      (quote (py_join ''/backup/configs'' ''my app''))"
    unfolding j q by (simp_all add: demo_env_def)
  note T = quoted_config_source_is_skipped [OF h1 h2 h3, of "''/home/u/.config/my app''" "[]"]
  have r: "reinstall_configs ?E ''/backup/configs'' False
         [(''/home/u/.config/my app'', ''my app'')] \<lparr>world = (), trace = []\<rparr>
       = Inr \<lparr>world = (), trace = []\<rparr>"
    using T [THEN conjunct2, THEN conjunct2] by (simp only: reinstall_configs.simps)
  show ?thesis
    using h1 real h2 h3 r by simp
qed

theorem quoted_config_source_counterexample:
  "\<not> list_all safe_char (py_join ''/backup/configs'' ''my app'')
   \<and> reinstall_config
        (demo_env [] [CHR 0x27 # ''/backup/configs/my app'' @ [CHR 0x27]] [] [])
        ''/backup/configs'' False (''/home/u/.config/my app'', ''my app'')
        \<lparr>world = (), trace = []\<rparr>
       = Inr \<lparr>world = (),
              trace = [Copytree (CHR 0x27 # ''/backup/configs/my app'' @ [CHR 0x27])
                         (CHR 0x27 # ''/home/u/.config/my app'' @ [CHR 0x27]) None]\<rparr>"
  by (simp add: reinstall_config_def py_join_def startswith_def quote_def safe_char_def
        str_replace_def demo_env_def emit_def)

end
